theory Spec2Isabelle
  imports Complex_Main
begin

section \<open>Region classification\<close>

text \<open>
  The engine is \<^verbatim>\<open>HighAccuracyEnvironmentalPredictor\<close> of
  \<^verbatim>\<open>envpredictor/predictor.py\<close>. The arithmetic of Python's
  floats is modelled by exact reals: a literal such as \<^verbatim>\<open>40.7\<close> is the rational
  \<open>407/10\<close>, and the rounding of 64-bit operations is not represented. Two places where
  the machine numbers decide the result are modelled: \<^verbatim>\<open>math.exp\<close> raises when its result
  is too large for a float, and \<^verbatim>\<open>np.mean\<close>, which adds up an array of 32-bit floats in
  32-bit floats, is a parameter of \<open>predict\<close>.
\<close>

datatype RegionType =
    OCEAN | COASTAL | FOREST_TROPICAL | FOREST_TEMPERATE | GRASSLAND
  | DESERT | TUNDRA | URBAN | MOUNTAIN | AGRICULTURAL

definition major_cities :: "(real \<times> real) list" where
  "major_cities =
     [(40.7, -74.0), (51.5, -0.1), (35.7, 139.7), (19.1, 72.9),
      (34.1, -118.2), (41.9, 12.5), (-23.5, -46.6), (30.0, 31.2),
      (39.9, 116.4), (55.8, 37.6)]"

text \<open>The \<^verbatim>\<open>for city_lat, city_lon in major_cities\<close> loop: true when some
  iteration reaches \<^verbatim>\<open>return RegionType.URBAN\<close>.\<close>

fun near_city :: "real \<Rightarrow> real \<Rightarrow> (real \<times> real) list \<Rightarrow> bool" where
  "near_city lat lon [] = False"
| "near_city lat lon ((city_lat, city_lon) # cities) =
     (if \<bar>lat - city_lat\<bar> < 1.0 \<and> \<bar>lon - city_lon\<bar> < 1.5 then True
      else near_city lat lon cities)"

text \<open>\<^verbatim>\<open>_determine_region_type\<close>: an \<^verbatim>\<open>if ...: return\<close> cascade, so the first
  condition that holds decides the result.\<close>

definition determine_region_type :: "real \<Rightarrow> real \<Rightarrow> RegionType" where
  "determine_region_type lat lon =
     (if \<bar>lat\<bar> < 30 \<and> ((0 < lon \<and> lon < 20) \<or> (60 < lon \<and> lon < 100) \<or> (140 < lon \<and> lon < 180) \<or>
          (-140 < lon \<and> lon < -60) \<or> (-20 < lon \<and> lon < 0))
      then OCEAN
      else if (15 < lat \<and> lat < 35 \<and> -120 < lon \<and> lon < -80) \<or>
              (15 < lat \<and> lat < 30 \<and> -10 < lon \<and> lon < 50) \<or>
              (20 < lat \<and> lat < 35 \<and> 50 < lon \<and> lon < 80) \<or>
              (-30 < lat \<and> lat < -15 \<and> 115 < lon \<and> lon < 150) \<or>
              (-30 < lat \<and> lat < -15 \<and> -80 < lon \<and> lon < -60)
      then DESERT
      else if (-10 < lat \<and> lat < 10 \<and> -80 < lon \<and> lon < -50) \<or>
              (-10 < lat \<and> lat < 10 \<and> 10 < lon \<and> lon < 40) \<or>
              (-10 < lat \<and> lat < 10 \<and> 90 < lon \<and> lon < 150)
      then FOREST_TROPICAL
      else if (40 < lat \<and> lat < 60 \<and> -10 < lon \<and> lon < 30) \<or>
              (40 < lat \<and> lat < 60 \<and> -130 < lon \<and> lon < -70) \<or>
              (30 < lat \<and> lat < 50 \<and> 120 < lon \<and> lon < 150)
      then FOREST_TEMPERATE
      else if lat > 60 \<or> lat < -60
      then TUNDRA
      else if (35 < lat \<and> lat < 45 \<and> -120 < lon \<and> lon < -105) \<or>
              (-35 < lat \<and> lat < -20 \<and> -75 < lon \<and> lon < -60) \<or>
              (30 < lat \<and> lat < 40 \<and> 70 < lon \<and> lon < 90) \<or>
              (45 < lat \<and> lat < 50 \<and> 5 < lon \<and> lon < 15)
      then MOUNTAIN
      else if \<bar>lon\<bar> < 10 \<or> \<bar>lon\<bar> > 170 \<or>
              (\<bar>lat\<bar> < 30 \<and> (\<bar>lon\<bar> < 100 \<and> \<bar>lon\<bar> > 80))
      then COASTAL
      else if near_city lat lon major_cities
      then URBAN
      else if (25 < lat \<and> lat < 50 \<and> -105 < lon \<and> lon < -75) \<or>
              (45 < lat \<and> lat < 55 \<and> -5 < lon \<and> lon < 30) \<or>
              (-40 < lat \<and> lat < -20 \<and> -65 < lon \<and> lon < -50) \<or>
              (20 < lat \<and> lat < 40 \<and> 70 < lon \<and> lon < 100)
      then AGRICULTURAL
      else GRASSLAND)"

definition get_elevation :: "real \<Rightarrow> real \<Rightarrow> real" where
  "get_elevation lat lon =
     (let region = determine_region_type lat lon in
      if region = MOUNTAIN then 2500.0
      else if region = TUNDRA then 200.0
      else if region = OCEAN then -50.0
      else 100.0)"

section \<open>Static tables\<close>

text \<open>The nine baseline values of a region (the inner dictionaries of
  \<^verbatim>\<open>regional_base_values\<close>; the keys \<^verbatim>\<open>PM1.0\<close> and \<^verbatim>\<open>PM2.5\<close> are written
  with an underscore).\<close>

record base_values =
  temperature :: real
  humidity :: real
  pressure :: real
  gas_resistance :: real
  CO2 :: real
  VOC :: real
  PM1_0 :: real
  PM2_5 :: real
  PM10 :: real

text \<open>\<^verbatim>\<open>regional_base_values\<close> has an entry for each of the ten members of the
  enumeration, so the subscript \<^verbatim>\<open>self.regional_base_values[region_type]\<close> is a total
  lookup.\<close>

definition regional_base_values :: "RegionType \<Rightarrow> base_values" where
  "regional_base_values region = (case region of
       OCEAN \<Rightarrow>
        \<lparr>temperature = 18, humidity = 85, pressure = 1013.25, gas_resistance = 80000,
         CO2 = 410, VOC = 80, PM1_0 = 2, PM2_5 = 3, PM10 = 4\<rparr>
     | COASTAL \<Rightarrow>
        \<lparr>temperature = 22, humidity = 75, pressure = 1013, gas_resistance = 60000,
         CO2 = 420, VOC = 120, PM1_0 = 5, PM2_5 = 8, PM10 = 10\<rparr>
     | FOREST_TROPICAL \<Rightarrow>
        \<lparr>temperature = 26, humidity = 85, pressure = 1012, gas_resistance = 50000,
         CO2 = 430, VOC = 200, PM1_0 = 4, PM2_5 = 6, PM10 = 8\<rparr>
     | FOREST_TEMPERATE \<Rightarrow>
        \<lparr>temperature = 18, humidity = 70, pressure = 1013, gas_resistance = 55000,
         CO2 = 425, VOC = 150, PM1_0 = 3, PM2_5 = 5, PM10 = 7\<rparr>
     | GRASSLAND \<Rightarrow>
        \<lparr>temperature = 20, humidity = 60, pressure = 1013, gas_resistance = 50000,
         CO2 = 420, VOC = 100, PM1_0 = 4, PM2_5 = 6, PM10 = 9\<rparr>
     | DESERT \<Rightarrow>
        \<lparr>temperature = 30, humidity = 20, pressure = 1012, gas_resistance = 30000,
         CO2 = 415, VOC = 50, PM1_0 = 10, PM2_5 = 25, PM10 = 50\<rparr>
     | TUNDRA \<Rightarrow>
        \<lparr>temperature = -5, humidity = 70, pressure = 1015, gas_resistance = 70000,
         CO2 = 410, VOC = 30, PM1_0 = 2, PM2_5 = 3, PM10 = 4\<rparr>
     | URBAN \<Rightarrow>
        \<lparr>temperature = 24, humidity = 65, pressure = 1012, gas_resistance = 40000,
         CO2 = 450, VOC = 300, PM1_0 = 10, PM2_5 = 20, PM10 = 30\<rparr>
     | MOUNTAIN \<Rightarrow>
        \<lparr>temperature = 12, humidity = 60, pressure = 900, gas_resistance = 60000,
         CO2 = 415, VOC = 80, PM1_0 = 3, PM2_5 = 5, PM10 = 7\<rparr>
     | AGRICULTURAL \<Rightarrow>
        \<lparr>temperature = 22, humidity = 65, pressure = 1013, gas_resistance = 45000,
         CO2 = 435, VOC = 180, PM1_0 = 6, PM2_5 = 12, PM10 = 15\<rparr>)"

text \<open>\<^verbatim>\<open>seasonal_params\<close> and \<^verbatim>\<open>diurnal_params\<close> are nested dictionaries read with
  \<^verbatim>\<open>.get(key, default)\<close>.\<close>

definition dict_get :: "('k \<rightharpoonup> 'v) \<Rightarrow> 'k \<Rightarrow> 'v \<Rightarrow> 'v" where
  "dict_get m k d = (case m k of None \<Rightarrow> d | Some v \<Rightarrow> v)"

definition seasonal_params :: "string \<rightharpoonup> (string \<rightharpoonup> (RegionType \<rightharpoonup> real))" where
  "seasonal_params = map_of
    [(''summer'', map_of
       [
        (''temp_shift'', map_of
           [(OCEAN, 2), (COASTAL, 4), (FOREST_TROPICAL, 1), (FOREST_TEMPERATE, 6),
            (GRASSLAND, 8), (DESERT, 12), (TUNDRA, 10),
            (URBAN, 5), (MOUNTAIN, 4), (AGRICULTURAL, 6)]),
        (''humidity_shift'', map_of
           [(OCEAN, 5), (COASTAL, 10), (FOREST_TROPICAL, 5), (FOREST_TEMPERATE, 15),
            (GRASSLAND, -10), (DESERT, -5), (TUNDRA, 20),
            (URBAN, 5), (MOUNTAIN, 5), (AGRICULTURAL, 8)]),
        (''pollution_factor'', map_of
           [(OCEAN, 1.1), (COASTAL, 1.2), (FOREST_TROPICAL, 1.1), (FOREST_TEMPERATE, 1.1),
            (GRASSLAND, 1.3), (DESERT, 1.5), (TUNDRA, 1),
            (URBAN, 1.4), (MOUNTAIN, 1.1), (AGRICULTURAL, 1.3)])]),
     (''winter'', map_of
       [
        (''temp_shift'', map_of
           [(OCEAN, -1), (COASTAL, -3), (FOREST_TROPICAL, 0), (FOREST_TEMPERATE, -8),
            (GRASSLAND, -10), (DESERT, -5), (TUNDRA, -25),
            (URBAN, -4), (MOUNTAIN, -6), (AGRICULTURAL, -5)]),
        (''humidity_shift'', map_of
           [(OCEAN, 0), (COASTAL, 5), (FOREST_TROPICAL, 0), (FOREST_TEMPERATE, -5),
            (GRASSLAND, -5), (DESERT, -3), (TUNDRA, -10),
            (URBAN, -5), (MOUNTAIN, -5), (AGRICULTURAL, -3)]),
        (''pollution_factor'', map_of
           [(OCEAN, 1), (COASTAL, 1.1), (FOREST_TROPICAL, 1), (FOREST_TEMPERATE, 1.2),
            (GRASSLAND, 1.4), (DESERT, 1.2), (TUNDRA, 1.5),
            (URBAN, 1.6), (MOUNTAIN, 1.3), (AGRICULTURAL, 1.4)])]),
     (''spring'', map_of
       [
        (''temp_shift'', map_of
           [(OCEAN, 1), (COASTAL, 2), (FOREST_TROPICAL, 0.5), (FOREST_TEMPERATE, 3),
            (GRASSLAND, 4), (DESERT, 6), (TUNDRA, 5),
            (URBAN, 2), (MOUNTAIN, 2), (AGRICULTURAL, 3)]),
        (''humidity_shift'', map_of
           [(OCEAN, 2), (COASTAL, 8), (FOREST_TROPICAL, 3), (FOREST_TEMPERATE, 10),
            (GRASSLAND, 5), (DESERT, 2), (TUNDRA, 15),
            (URBAN, 3), (MOUNTAIN, 3), (AGRICULTURAL, 5)]),
        (''pollution_factor'', map_of
           [(OCEAN, 1), (COASTAL, 1.1), (FOREST_TROPICAL, 1), (FOREST_TEMPERATE, 1.1),
            (GRASSLAND, 1.2), (DESERT, 1.3), (TUNDRA, 1.1),
            (URBAN, 1.3), (MOUNTAIN, 1.1), (AGRICULTURAL, 1.2)])]),
     (''fall'', map_of
       [
        (''temp_shift'', map_of
           [(OCEAN, 0.5), (COASTAL, 1), (FOREST_TROPICAL, 0.5), (FOREST_TEMPERATE, 2),
            (GRASSLAND, 3), (DESERT, 4), (TUNDRA, 2),
            (URBAN, 1), (MOUNTAIN, 1), (AGRICULTURAL, 2)]),
        (''humidity_shift'', map_of
           [(OCEAN, 1), (COASTAL, 5), (FOREST_TROPICAL, 2), (FOREST_TEMPERATE, 8),
            (GRASSLAND, 3), (DESERT, 1), (TUNDRA, 10),
            (URBAN, 2), (MOUNTAIN, 2), (AGRICULTURAL, 3)]),
        (''pollution_factor'', map_of
           [(OCEAN, 1), (COASTAL, 1.1), (FOREST_TROPICAL, 1), (FOREST_TEMPERATE, 1.2),
            (GRASSLAND, 1.3), (DESERT, 1.4), (TUNDRA, 1.2),
            (URBAN, 1.4), (MOUNTAIN, 1.2), (AGRICULTURAL, 1.3)])])]"

definition diurnal_params :: "string \<rightharpoonup> (string \<rightharpoonup> (RegionType \<rightharpoonup> real))" where
  "diurnal_params = map_of
    [(''morning'', map_of
       [
        (''temp_shift'', map_of
           [(OCEAN, -0.5), (COASTAL, -1), (FOREST_TROPICAL, -0.5), (FOREST_TEMPERATE, -1.5),
            (GRASSLAND, -2), (DESERT, -3), (TUNDRA, -1),
            (URBAN, -1), (MOUNTAIN, -1.5), (AGRICULTURAL, -1.5)]),
        (''humidity_shift'', map_of
           [(OCEAN, 5), (COASTAL, 10), (FOREST_TROPICAL, 5), (FOREST_TEMPERATE, 10),
            (GRASSLAND, 15), (DESERT, 10), (TUNDRA, 5),
            (URBAN, 8), (MOUNTAIN, 10), (AGRICULTURAL, 12)]),
        (''pollution_factor'', map_of
           [(OCEAN, 1), (COASTAL, 1.1), (FOREST_TROPICAL, 1), (FOREST_TEMPERATE, 1.1),
            (GRASSLAND, 1.2), (DESERT, 1.3), (TUNDRA, 1),
            (URBAN, 1.3), (MOUNTAIN, 1.1), (AGRICULTURAL, 1.2)])]),
     (''afternoon'', map_of
       [
        (''temp_shift'', map_of
           [(OCEAN, 1), (COASTAL, 3), (FOREST_TROPICAL, 2), (FOREST_TEMPERATE, 4),
            (GRASSLAND, 6), (DESERT, 10), (TUNDRA, 3),
            (URBAN, 4), (MOUNTAIN, 3), (AGRICULTURAL, 5)]),
        (''humidity_shift'', map_of
           [(OCEAN, -5), (COASTAL, -10), (FOREST_TROPICAL, -5), (FOREST_TEMPERATE, -10),
            (GRASSLAND, -15), (DESERT, -5), (TUNDRA, -5),
            (URBAN, -10), (MOUNTAIN, -10), (AGRICULTURAL, -12)]),
        (''pollution_factor'', map_of
           [(OCEAN, 1), (COASTAL, 1), (FOREST_TROPICAL, 1), (FOREST_TEMPERATE, 1),
            (GRASSLAND, 1.1), (DESERT, 1.2), (TUNDRA, 1),
            (URBAN, 1.2), (MOUNTAIN, 1), (AGRICULTURAL, 1.1)])]),
     (''evening'', map_of
       [
        (''temp_shift'', map_of
           [(OCEAN, 0.5), (COASTAL, 1), (FOREST_TROPICAL, 0.5), (FOREST_TEMPERATE, 1),
            (GRASSLAND, 2), (DESERT, 3), (TUNDRA, 1),
            (URBAN, 1), (MOUNTAIN, 1), (AGRICULTURAL, 1.5)]),
        (''humidity_shift'', map_of
           [(OCEAN, 3), (COASTAL, 8), (FOREST_TROPICAL, 3), (FOREST_TEMPERATE, 8),
            (GRASSLAND, 10), (DESERT, 5), (TUNDRA, 3),
            (URBAN, 5), (MOUNTAIN, 5), (AGRICULTURAL, 8)]),
        (''pollution_factor'', map_of
           [(OCEAN, 1.1), (COASTAL, 1.2), (FOREST_TROPICAL, 1.1), (FOREST_TEMPERATE, 1.2),
            (GRASSLAND, 1.3), (DESERT, 1.4), (TUNDRA, 1.1),
            (URBAN, 1.4), (MOUNTAIN, 1.2), (AGRICULTURAL, 1.3)])]),
     (''night'', map_of
       [
        (''temp_shift'', map_of
           [(OCEAN, -1), (COASTAL, -2), (FOREST_TROPICAL, -1), (FOREST_TEMPERATE, -3),
            (GRASSLAND, -4), (DESERT, -8), (TUNDRA, -2),
            (URBAN, -2), (MOUNTAIN, -3), (AGRICULTURAL, -3)]),
        (''humidity_shift'', map_of
           [(OCEAN, 8), (COASTAL, 15), (FOREST_TROPICAL, 8), (FOREST_TEMPERATE, 15),
            (GRASSLAND, 20), (DESERT, 15), (TUNDRA, 10),
            (URBAN, 12), (MOUNTAIN, 15), (AGRICULTURAL, 18)]),
        (''pollution_factor'', map_of
           [(OCEAN, 0.9), (COASTAL, 0.9), (FOREST_TROPICAL, 0.9), (FOREST_TEMPERATE, 0.9),
            (GRASSLAND, 0.9), (DESERT, 0.8), (TUNDRA, 0.9),
            (URBAN, 1), (MOUNTAIN, 0.9), (AGRICULTURAL, 0.9)])])]"

section \<open>Temporal features\<close>

text \<open>A \<^verbatim>\<open>datetime\<close> value as far as the engine reads it. The fields are those of
  a valid calendar timestamp (month 1 to 12, hour 0 to 23, minute 0 to 59).\<close>

record datetime =
  dt_year :: nat
  dt_month :: nat
  dt_day :: nat
  dt_hour :: nat
  dt_minute :: nat

definition is_leap :: "nat \<Rightarrow> bool" where
  "is_leap y = (y mod 4 = 0 \<and> (y mod 100 \<noteq> 0 \<or> y mod 400 = 0))"

definition days_in_months :: "nat \<Rightarrow> nat list" where
  "days_in_months y =
     [31, if is_leap y then 29 else 28, 31, 30, 31, 30, 31, 31, 30, 31, 30, 31]"

text \<open>\<^verbatim>\<open>dt.timetuple().tm_yday\<close>: the days of the months before this one, plus the
  day of the month.\<close>

definition tm_yday :: "datetime \<Rightarrow> nat" where
  "tm_yday dt = sum_list (take (dt_month dt - 1) (days_in_months (dt_year dt))) + dt_day dt"

record features =
  year_progress :: real
  seasonal_sin :: real
  seasonal_cos :: real
  diurnal_sin :: real
  diurnal_cos :: real
  season :: string
  time_of_day :: string
  hour :: nat
  month :: nat

definition datetime_to_features :: "datetime \<Rightarrow> features" where
  "datetime_to_features dt =
     (let year_progress = (real (tm_yday dt) - 1) / 365.0;
          seasonal_sin = sin (2 * pi * year_progress);
          seasonal_cos = cos (2 * pi * year_progress);
          diurnal_progress = real (dt_hour dt * 60 + dt_minute dt) / real (24 * 60);
          diurnal_sin = sin (2 * pi * diurnal_progress);
          diurnal_cos = cos (2 * pi * diurnal_progress);
          month = dt_month dt;
          season =
            (if 3 \<le> month \<and> month \<le> 5 then ''spring''
             else if 6 \<le> month \<and> month \<le> 8 then ''summer''
             else if 9 \<le> month \<and> month \<le> 11 then ''fall''
             else ''winter'');
          hour = dt_hour dt;
          time_of_day =
            (if 5 \<le> hour \<and> hour < 11 then ''morning''
             else if 11 \<le> hour \<and> hour < 16 then ''afternoon''
             else if 16 \<le> hour \<and> hour < 21 then ''evening''
             else ''night'')
      in \<lparr>year_progress = year_progress,
          seasonal_sin = seasonal_sin,
          seasonal_cos = seasonal_cos,
          diurnal_sin = diurnal_sin,
          diurnal_cos = diurnal_cos,
          season = season,
          time_of_day = time_of_day,
          hour = hour,
          month = month\<rparr>)"

section \<open>Synthetic tensor generator\<close>

text \<open>NumPy arrays are nested lists; an arithmetic operator on an array is a
  \<open>map\<close> over its elements. \<^verbatim>\<open>np.linspace(start, stop, num)\<close> and
  \<^verbatim>\<open>np.meshgrid(x, y)\<close> (which copies \<open>x\<close> along the rows and \<open>y\<close> down the
  columns):\<close>

definition linspace :: "real \<Rightarrow> real \<Rightarrow> nat \<Rightarrow> real list" where
  "linspace start stop num =
     map (\<lambda>i. start + real i * ((stop - start) / real (num - 1))) [0..<num]"

definition meshgrid :: "real list \<Rightarrow> real list \<Rightarrow> real list list \<times> real list list" where
  "meshgrid x y = (map (\<lambda>_. x) y, map (\<lambda>v. map (\<lambda>_. v) x) y)"

definition clip :: "real \<Rightarrow> real \<Rightarrow> real \<Rightarrow> real" where
  "clip a a_min a_max = min (max a a_min) a_max"

text \<open>The field \<^verbatim>\<open>patch\<close> of \<^verbatim>\<open>_generate_synthetic_patch\<close> after
  \<^verbatim>\<open>patch *= elevation_factor\<close>: the frame that enters the sequence unweighted.\<close>

definition synthetic_field :: "real \<Rightarrow> real \<Rightarrow> datetime \<Rightarrow> real list list" where
  "synthetic_field lat lon dt =
     (let region_type = determine_region_type lat lon;
          temporal_features = datetime_to_features dt;
          elevation = get_elevation lat lon;
          x = linspace (-1) 1 128;
          y = linspace (-1) 1 128;
          (rel_lat, rel_lon) = meshgrid x y;
          dist = map2 (map2 (\<lambda>a b. sqrt (a\<^sup>2 + b\<^sup>2) / sqrt 2)) rel_lat rel_lon;
          pattern =
            (if region_type = OCEAN then map (map (\<lambda>d. 0.3 + 0.7 * exp (- d * 3))) dist
             else if region_type = DESERT then map (map (\<lambda>d. 0.5 + 0.5 * sin (d * 10))) dist
             else if region_type = URBAN then map (map (\<lambda>d. 0.4 + 0.6 * (1 - d\<^sup>2))) dist
             else map (map (\<lambda>d. max 0.2 (exp (- d * 2)))) dist);
          seasonal_effect = 0.5 * seasonal_sin temporal_features + 0.2 * seasonal_cos temporal_features;
          diurnal_effect = 0.3 * diurnal_sin temporal_features + 0.1 * diurnal_cos temporal_features;
          (seasonal_effect, diurnal_effect) =
            (if region_type = OCEAN then (seasonal_effect * 0.7, diurnal_effect * 0.5)
             else if region_type = DESERT then (seasonal_effect * 1.2, diurnal_effect * 1.5)
             else if region_type = URBAN then (seasonal_effect * 0.9, diurnal_effect * 1.2)
             else (seasonal_effect, diurnal_effect));
          patch = map (map (\<lambda>p. clip (p * (1 + seasonal_effect) * (1 + diurnal_effect * 0.5)) 0.1 1.0)) pattern;
          elevation_factor = 1.0 - min 1.0 (elevation / 5000.0)
      in map (map (\<lambda>v. v * elevation_factor)) patch)"

text \<open>\<^verbatim>\<open>_generate_synthetic_patch\<close>: the three weighted copies stacked along a leading
  axis, with a trailing axis of length one (\<^verbatim>\<open>sequence[..., np.newaxis]\<close>).\<close>

definition generate_synthetic_patch :: "real \<Rightarrow> real \<Rightarrow> datetime \<Rightarrow> real list list list list" where
  "generate_synthetic_patch lat lon dt =
     (let patch = synthetic_field lat lon dt;
          sequence = [map (map (\<lambda>v. v * 0.85)) patch, map (map (\<lambda>v. v * 0.93)) patch, patch]
      in map (map (map (\<lambda>v. [v]))) sequence)"

section \<open>Regional baseline adjustment\<close>

text \<open>\<^verbatim>\<open>_apply_temporal_adjustments\<close>. \<^verbatim>\<open>base_values.copy()\<close> is a fresh dictionary
  of immutable floats, so the table entry itself is never written to.\<close>

definition apply_temporal_adjustments :: "base_values \<Rightarrow> datetime \<Rightarrow> RegionType \<Rightarrow> base_values" where
  "apply_temporal_adjustments base_values dt region_type =
     (let temporal_features = datetime_to_features dt;
          season = season temporal_features;
          time_of_day = time_of_day temporal_features;
          season_params = dict_get seasonal_params season Map.empty;
          diurnal_params = dict_get diurnal_params time_of_day Map.empty;
          adjusted_values = base_values;
          temp_shift = dict_get (dict_get season_params ''temp_shift'' Map.empty) region_type 0.0 +
                       dict_get (dict_get diurnal_params ''temp_shift'' Map.empty) region_type 0.0;
          adjusted_values = adjusted_values\<lparr>temperature :=
            temperature adjusted_values + temp_shift * (1 + 0.1 * seasonal_sin temporal_features)\<rparr>;
          humidity_shift = dict_get (dict_get season_params ''humidity_shift'' Map.empty) region_type 0.0 +
                           dict_get (dict_get diurnal_params ''humidity_shift'' Map.empty) region_type 0.0;
          adjusted_values = adjusted_values\<lparr>humidity :=
            min 100 (max 10 (humidity adjusted_values + humidity_shift))\<rparr>;
          season_pollution = dict_get (dict_get season_params ''pollution_factor'' Map.empty) region_type 1.0;
          diurnal_pollution = dict_get (dict_get diurnal_params ''pollution_factor'' Map.empty) region_type 1.0;
          pollution_factor = season_pollution * diurnal_pollution;
          adjusted_values = adjusted_values\<lparr>CO2 := CO2 adjusted_values * pollution_factor\<rparr>;
          adjusted_values = adjusted_values\<lparr>VOC :=
            VOC adjusted_values * (pollution_factor * (if region_type = URBAN then 1.2 else 1.1))\<rparr>;
          adjusted_values = adjusted_values\<lparr>PM1_0 := PM1_0 adjusted_values * pollution_factor\<rparr>;
          adjusted_values = adjusted_values\<lparr>PM2_5 :=
            PM2_5 adjusted_values * (pollution_factor * (if region_type = URBAN then 1.3 else 1.2))\<rparr>;
          adjusted_values = adjusted_values\<lparr>PM10 :=
            PM10 adjusted_values * (pollution_factor * (if region_type = URBAN then 1.4 else 1.2))\<rparr>
      in adjusted_values)"

section \<open>Value synthesis\<close>

text \<open>The sensor values that \<^verbatim>\<open>_calculate_enhanced_values\<close> returns: the
  \<^verbatim>\<open>BME688\<close> group, and one value under each of the other keys.\<close>

record bme688 =
  bme_temperature :: real
  bme_humidity :: real
  bme_pressure :: real
  bme_gas_resistance :: real

record sensor_values =
  BME688 :: bme688
  MCP9808_temperature :: real
  CO2_value :: real
  VOC_value :: real
  PM1_0_value :: real
  PM2_5_value :: real
  PM10_value :: real

text \<open>Exceptions are values: \<^verbatim>\<open>ValueError\<close>, and \<^verbatim>\<open>Exception\<close> for every other
  exception class that \<^verbatim>\<open>predict\<close> catches, each with the text \<^verbatim>\<open>str(e)\<close>.\<close>

datatype exn = ValueError string | Exception string

text \<open>\<^verbatim>\<open>math.exp\<close> raises \<^verbatim>\<open>OverflowError\<close>, with the text \<^verbatim>\<open>math range error\<close>, when its
  result is too large for a double, that is from \<open>2\<^sup>1\<^sup>0\<^sup>2\<^sup>4\<close> on (an argument above about
  709.78). A result too small for a double is returned as zero there and as the small
  positive real here.\<close>

definition math_exp :: "real \<Rightarrow> exn + real" where
  "math_exp x = (if exp x < 2 ^ 1024 then Inr (exp x) else Inl (Exception ''math range error''))"

definition sigmoid_scale :: "real \<Rightarrow> real \<Rightarrow> real \<Rightarrow> real \<Rightarrow> exn + real" where
  "sigmoid_scale base factor range_scale steepness =
     (case math_exp (- steepness * (factor - 0.5)) of
        Inl e \<Rightarrow> Inl e
      | Inr v \<Rightarrow> Inr (base + (2 * range_scale) / (1 + v)))"

definition exp_scale :: "real \<Rightarrow> real \<Rightarrow> real \<Rightarrow> exn + real" where
  "exp_scale base factor range_scale =
     (case math_exp (3 * factor) of
        Inl e \<Rightarrow> Inl e
      | Inr a \<Rightarrow>
         (case math_exp 3 of
            Inl e \<Rightarrow> Inl e
          | Inr b \<Rightarrow> Inr (base + range_scale * (a / b))))"

text \<open>
  The only effect of the engine is the draw \<^verbatim>\<open>random.uniform(-noise_scale, noise_scale)\<close>
  from the process-wide generator. The generator is an explicit state \<open>'g\<close>, and
  \<open>uniform\<close>, the function the draw calls, is a parameter: it takes the two bounds and
  the state and returns the sample and the next state.
\<close>

type_synonym 'g uniform = "real \<Rightarrow> real \<Rightarrow> 'g \<Rightarrow> real \<times> 'g"

text \<open>The library's \<^verbatim>\<open>random.uniform(a, b)\<close> is \<^verbatim>\<open>a + (b - a) * self.random()\<close>; the
  generator state is the stream of the values \<^verbatim>\<open>random()\<close> is still to return, each
  of them in \<open>[0, 1)\<close>.\<close>

definition random_uniform :: "(nat \<Rightarrow> real) uniform" where
  "random_uniform a b g = (a + (b - a) * g 0, \<lambda>n. g (Suc n))"

text \<open>The draw replaced by one that returns 0 and leaves the generator alone.\<close>

definition uniform_zero :: "'g uniform" where
  "uniform_zero a b g = (0, g)"

definition add_sensor_noise :: "'g uniform \<Rightarrow> real \<Rightarrow> real \<Rightarrow> real \<Rightarrow> 'g \<Rightarrow> real \<times> 'g" where
  "add_sensor_noise uniform v relative_scale absolute_min_noise g =
     (let noise_scale = max (\<bar>v\<bar> * relative_scale) absolute_min_noise;
          (u, g') = uniform (- noise_scale) noise_scale g
      in (v + u, g'))"

text \<open>An argument that raised ends the computation there, with the generator as the draws
  made so far have left it.\<close>

definition on_value :: "exn + 'a \<Rightarrow> 'g \<Rightarrow> ('a \<Rightarrow> (exn + 'b) \<times> 'g) \<Rightarrow> (exn + 'b) \<times> 'g" where
  "on_value r g k = (case r of Inl e \<Rightarrow> (Inl e, g) | Inr v \<Rightarrow> k v)"

text \<open>\<^verbatim>\<open>_calculate_enhanced_values\<close>. The dictionary display is evaluated from top to
  bottom, and in each entry the argument of \<^verbatim>\<open>add_sensor_noise\<close> before the draw: so
  the ten draws happen in the order of the keys, and a scaling function that raises does
  so after the draws of the entries above it.\<close>

definition calculate_enhanced_values ::
    "'g uniform \<Rightarrow> real \<Rightarrow> base_values \<Rightarrow> 'g \<Rightarrow> (exn + sensor_values) \<times> 'g" where
  "calculate_enhanced_values uniform normalized_mean adjusted_values g0 =
     on_value (sigmoid_scale (temperature adjusted_values) normalized_mean 15 5) g0 (\<lambda>t.
     let (bme_t, g1) = add_sensor_noise uniform t 0.01 0.1 g0;
         (bme_h, g2) = add_sensor_noise uniform
            (min 100 (max 10 (humidity adjusted_values + normalized_mean * 50))) 0.005 0.1 g1;
         (bme_p, g3) = add_sensor_noise uniform
            (max 950 (min 1050 (pressure adjusted_values - normalized_mean * 5))) 0.001 0.1 g2 in
     on_value (exp_scale (gas_resistance adjusted_values) normalized_mean 150000) g3 (\<lambda>gas.
     let (bme_g, g4) = add_sensor_noise uniform gas 0.02 0.1 g3 in
     on_value (sigmoid_scale (temperature adjusted_values) normalized_mean 15 5) g4 (\<lambda>t'.
     let (mcp_t, g5) = add_sensor_noise uniform t' 0.01 0.1 g4 in
     on_value (exp_scale (CO2 adjusted_values) normalized_mean 600) g5 (\<lambda>c.
     let (co2, g6) = add_sensor_noise uniform c 0.02 1.0 g5 in
     on_value (exp_scale (VOC adjusted_values) normalized_mean 400) g6 (\<lambda>v.
     let (voc, g7) = add_sensor_noise uniform v 0.02 0.5 g6 in
     on_value (exp_scale (PM1_0 adjusted_values) normalized_mean 25) g7 (\<lambda>p1.
     let (pm1, g8) = add_sensor_noise uniform p1 0.05 0.1 g7 in
     on_value (exp_scale (PM2_5 adjusted_values) normalized_mean 30) g8 (\<lambda>p25.
     let (pm25, g9) = add_sensor_noise uniform p25 0.05 0.1 g8 in
     on_value (exp_scale (PM10 adjusted_values) normalized_mean 40) g9 (\<lambda>p10.
     let (pm10, g10) = add_sensor_noise uniform p10 0.05 0.1 g9 in
     (Inr \<lparr>BME688 = \<lparr>bme_temperature = bme_t, bme_humidity = bme_h,
                         bme_pressure = bme_p, bme_gas_resistance = bme_g\<rparr>,
           MCP9808_temperature = mcp_t,
           CO2_value = co2,
           VOC_value = voc,
           PM1_0_value = max 0 pm1,
           PM2_5_value = max 0 pm25,
           PM10_value = max 0 pm10\<rparr>, g10)))))))))"

section \<open>Physical constraints\<close>

record calibration =
  cal_CO2 :: real
  cal_VOC :: real
  cal_PM :: real

definition calibration_factors :: "string \<rightharpoonup> calibration" where
  "calibration_factors = map_of
    [(''urban'', \<lparr>cal_CO2 = 1.1, cal_VOC = 1.2, cal_PM = 1.3\<rparr>),
     (''rural'', \<lparr>cal_CO2 = 1.0, cal_VOC = 1.0, cal_PM = 1.0\<rparr>)]"

text \<open>A subscript \<^verbatim>\<open>d[key]\<close> raises \<^verbatim>\<open>KeyError\<close> on a missing key.\<close>

definition dict_subscript :: "(string \<rightharpoonup> 'v) \<Rightarrow> string \<Rightarrow> exn + 'v" where
  "dict_subscript m k =
     (case m k of None \<Rightarrow> Inl (Exception ([CHR 0x27] @ k @ [CHR 0x27])) | Some v \<Rightarrow> Inr v)"

text \<open>\<^verbatim>\<open>_apply_physics_constraints\<close> updates the freshly built dictionary in place; the
  model returns the updated record.\<close>

definition apply_physics_constraints ::
    "sensor_values \<Rightarrow> real \<Rightarrow> real \<Rightarrow> datetime \<Rightarrow> exn + sensor_values" where
  "apply_physics_constraints vals lat lon dt =
     (let elevation = get_elevation lat lon;
          elevation_factor = 1.0 - min 1.0 (elevation / 5000.0);
          temp_adjustment = elevation_factor * 2.0;
          vals = vals\<lparr>BME688 := (BME688 vals)\<lparr>bme_temperature :=
                   bme_temperature (BME688 vals) - temp_adjustment\<rparr>\<rparr>;
          vals = vals\<lparr>MCP9808_temperature := MCP9808_temperature vals - temp_adjustment\<rparr>;
          vals = vals\<lparr>BME688 := (BME688 vals)\<lparr>bme_pressure :=
                   bme_pressure (BME688 vals) * (1 - elevation_factor * 0.00012)\<rparr>\<rparr>;
          region_type = determine_region_type lat lon;
          area_type = (if region_type = URBAN then ''urban'' else ''rural'')
      in case dict_subscript calibration_factors area_type of
           Inl e \<Rightarrow> Inl e
         | Inr calibration \<Rightarrow>
             Inr (vals\<lparr>CO2_value := CO2_value vals * cal_CO2 calibration,
                       VOC_value := VOC_value vals * cal_VOC calibration,
                       PM1_0_value := PM1_0_value vals * cal_PM calibration,
                       PM2_5_value := PM2_5_value vals * cal_PM calibration,
                       PM10_value := PM10_value vals * cal_PM calibration\<rparr>))"

section \<open>The prediction pipeline\<close>

record metadata =
  latitude :: real
  longitude :: real
  date :: string
  time :: string
  meta_season :: string
  meta_time_of_day :: string
  normalized_activity :: real
  uncertainty :: real

record results = sensor_values +
  metadata :: metadata

text \<open>The dictionary \<^verbatim>\<open>predict\<close> returns from an \<^verbatim>\<open>except\<close> clause.\<close>

record error_result =
  error :: string
  message :: string

datatype outcome =
    is_Success: Success (the_results: results)
  | Failure (the_error: error_result)

text \<open>\<^verbatim>\<open>np.max\<close> and \<^verbatim>\<open>np.min\<close> reduce over all elements of an array and return one
  of them. They raise \<^verbatim>\<open>ValueError\<close> on an array without elements; \<open>predict_body\<close>
  below raises that error itself before it uses them.\<close>

definition np_max :: "real list list \<Rightarrow> real" where
  "np_max a = Max (set (concat a))"

definition np_min :: "real list list \<Rightarrow> real" where
  "np_min a = Min (set (concat a))"

text \<open>The three lines of \<^verbatim>\<open>predict\<close> that turn the mean field into the activity
  signal \<^verbatim>\<open>normalized_mean\<close>. The model output is an array of 32-bit floats, and
  \<^verbatim>\<open>np.mean\<close> adds them up in 32-bit floats: what it returns is the mean up to the
  rounding of that summation, and need not lie between the minimum and the maximum. The
  library function is therefore a parameter, \<open>np_mean\<close>. The subtraction, the addition of
  \<open>10\<^sup>-\<^sup>7\<close> and the division are exact, as all arithmetic of the engine is here.\<close>

definition normalized_mean :: "(real list list \<Rightarrow> real) \<Rightarrow> real list list \<Rightarrow> real" where
  "normalized_mean np_mean mean_pred =
     (let pred_mean = np_mean mean_pred;
          pred_range = np_max mean_pred - np_min mean_pred
      in (pred_mean - np_min mean_pred) / (pred_range + 1 / 10 ^ 7))"

text \<open>
  \<^verbatim>\<open>predict\<close>. Three library calls are parameters:
  \<^item> \<open>strptime\<close>, the call \<^verbatim>\<open>datetime.strptime(data, format)\<close>, which returns a timestamp
    or raises;
  \<^item> \<open>model\<close>, the call \<^verbatim>\<open>self.model.predict(batch, verbose=0)[0]\<close> on the batch of one
    tensor, which returns the \<open>128 \<times> 128 \<times> 2\<close> output as rows of pixels, each pixel the
    pair of its mean and uncertainty channels, or raises;
  \<^item> \<open>np_mean\<close>, the call \<^verbatim>\<open>np.mean\<close> on a channel of that output.

  \<open>predict_body\<close> is the \<^verbatim>\<open>try\<close> block, with the generator as it is when the block
  is left; \<open>predict\<close> adds the two \<^verbatim>\<open>except\<close> clauses. The parser, the model and
  \<^verbatim>\<open>np.max\<close> on an output without elements raise before the first draw; a scaling
  function can raise between two draws; the subscript of the calibration table comes
  after the draws, and \<open>calibration_lookup\<close> below shows that it finds its key.
\<close>

text \<open>\<^verbatim>\<open>time_str if time_str else '00:00'\<close>: both \<^verbatim>\<open>None\<close> and the empty string
  count as absent.\<close>

definition time_or_default :: "string option \<Rightarrow> string" where
  "time_or_default time_str =
     (case time_str of None \<Rightarrow> ''00:00'' | Some t \<Rightarrow> if t = [] then ''00:00'' else t)"

text \<open>The local \<^verbatim>\<open>elevation_factor\<close> of \<^verbatim>\<open>_generate_synthetic_patch\<close> and of
  \<^verbatim>\<open>_apply_physics_constraints\<close>, as a function of the coordinates.\<close>

definition elevation_factor :: "real \<Rightarrow> real \<Rightarrow> real" where
  "elevation_factor lat lon = 1.0 - min 1.0 (get_elevation lat lon / 5000.0)"

type_synonym tensor = "real list list list list"
type_synonym prediction = "(real \<times> real) list list"

definition predict_body ::
    "(string \<Rightarrow> string \<Rightarrow> exn + datetime) \<Rightarrow> (tensor list \<Rightarrow> exn + prediction)
      \<Rightarrow> (real list list \<Rightarrow> real) \<Rightarrow> 'g uniform \<Rightarrow> 'g
      \<Rightarrow> string \<Rightarrow> real \<Rightarrow> real \<Rightarrow> string option \<Rightarrow> (exn + results) \<times> 'g" where
  "predict_body strptime model np_mean uniform g date_str lat lon time_str =
     (case strptime (date_str @ '' '' @ time_or_default time_str) ''%Y%m%d %H:%M'' of
           Inl e \<Rightarrow> (Inl e, g)
         | Inr dt \<Rightarrow>
            (let input_patch = generate_synthetic_patch lat lon dt
             in case model [input_patch] of
                  Inl e \<Rightarrow> (Inl e, g)
                | Inr pred \<Rightarrow>
                   (let mean_pred = map (map fst) pred;
                        uncertainty = map (map snd) pred
                    in if concat mean_pred = []
                       then (Inl (ValueError
                         ''zero-size array to reduction operation maximum which has no identity''), g)
                       else
                        (let normalized_mean = normalized_mean np_mean mean_pred;
                             region_type = determine_region_type lat lon;
                             base_values = regional_base_values region_type;
                             adjusted_values = apply_temporal_adjustments base_values dt region_type
                         in case calculate_enhanced_values uniform normalized_mean adjusted_values g of
                              (Inl e, g') \<Rightarrow> (Inl e, g')
                            | (Inr vals, g') \<Rightarrow>
                               (case apply_physics_constraints vals lat lon dt of
                                  Inl e \<Rightarrow> (Inl e, g')
                                | Inr vals \<Rightarrow>
                                   (Inr \<lparr>BME688 = BME688 vals,
                                         MCP9808_temperature = MCP9808_temperature vals,
                                         CO2_value = CO2_value vals,
                                         VOC_value = VOC_value vals,
                                         PM1_0_value = PM1_0_value vals,
                                         PM2_5_value = PM2_5_value vals,
                                         PM10_value = PM10_value vals,
                                         metadata =
                                           \<lparr>latitude = lat,
                                            longitude = lon,
                                            date = date_str,
                                            time = time_or_default time_str,
                                            meta_season = season (datetime_to_features dt),
                                            meta_time_of_day = time_of_day (datetime_to_features dt),
                                            normalized_activity = normalized_mean,
                                            uncertainty = np_mean uncertainty\<rparr>\<rparr>, g'))))))"

definition predict ::
    "(string \<Rightarrow> string \<Rightarrow> exn + datetime) \<Rightarrow> (tensor list \<Rightarrow> exn + prediction)
      \<Rightarrow> (real list list \<Rightarrow> real) \<Rightarrow> 'g uniform \<Rightarrow> 'g
      \<Rightarrow> string \<Rightarrow> real \<Rightarrow> real \<Rightarrow> string option \<Rightarrow> outcome \<times> 'g" where
  "predict strptime model np_mean uniform g date_str lat lon time_str =
     (case predict_body strptime model np_mean uniform g date_str lat lon time_str of
        (Inr res, g') \<Rightarrow> (Success res, g')
      | (Inl (ValueError e), g') \<Rightarrow>
          (Failure \<lparr>error = e, message = ''Invalid date/time format or input values''\<rparr>, g')
      | (Inl (Exception e), g') \<Rightarrow>
          (Failure \<lparr>error = e, message = ''Prediction failed''\<rparr>, g'))"

section \<open>The library calls, for concrete runs\<close>

text \<open>
  The theorems below hold for every \<open>strptime\<close>, \<open>model\<close> and \<open>np_mean\<close>. To run the
  pipeline on concrete calls, this section gives functions that can stand for them.
\<close>

subsection \<open>The parser\<close>

text \<open>
  \<^verbatim>\<open>datetime.strptime\<close> for the format \<^verbatim>\<open>%Y%m%d %H:%M\<close>, the only one the engine uses (the
  format argument appears in the error text and is not inspected otherwise). A string is read
  as a sequence of code points below 256. The library turns the format into the regular
  expression
  \<^verbatim>\<open>(\d\d\d\d)(1[0-2]|0[1-9]|[1-9])(3[0-1]|[1-2]\d|0[1-9]|[1-9]| [1-9])\s+(2[0-3]|[0-1]\d|\d):([0-5]\d|\d)\<close>
  and matches it at the start of the data, alternatives in the order written and
  \<^verbatim>\<open>\s+\<close> longest first; then it refuses data left over, and builds the date, which
  refuses the year 0 and a day the month does not have.
\<close>

definition char_code :: "char \<Rightarrow> nat" where
  "char_code c = of_char c"

text \<open>A pattern is a list of ranges of codes, one for each character.\<close>

fun matches :: "(nat \<times> nat) list \<Rightarrow> string \<Rightarrow> bool" where
  "matches [] s = True"
| "matches ((lo, hi) # p) [] = False"
| "matches ((lo, hi) # p) (c # s) = (lo \<le> char_code c \<and> char_code c \<le> hi \<and> matches p s)"

definition alternatives :: "(nat \<times> nat) list list \<Rightarrow> string \<Rightarrow> (string \<times> string) list" where
  "alternatives ps s = [(take (length p) s, drop (length p) s). p \<leftarrow> ps, matches p s]"

definition directive_Y :: "(nat \<times> nat) list list" where
  "directive_Y = [[(48, 57), (48, 57), (48, 57), (48, 57)]]"

definition directive_m :: "(nat \<times> nat) list list" where
  "directive_m = [[(49, 49), (48, 50)], [(48, 48), (49, 57)], [(49, 57)]]"

definition directive_d :: "(nat \<times> nat) list list" where
  "directive_d = [[(51, 51), (48, 49)], [(49, 50), (48, 57)], [(48, 48), (49, 57)], [(49, 57)],
                  [(32, 32), (49, 57)]]"

definition directive_H :: "(nat \<times> nat) list list" where
  "directive_H = [[(50, 50), (48, 51)], [(48, 49), (48, 57)], [(48, 57)]]"

definition directive_M :: "(nat \<times> nat) list list" where
  "directive_M = [[(48, 53), (48, 57)], [(48, 57)]]"

definition is_space :: "char \<Rightarrow> bool" where
  "is_space c = (char_code c \<in> {9, 10, 11, 12, 13, 28, 29, 30, 31, 32, 133, 160})"

definition whitespace_rests :: "string \<Rightarrow> string list" where
  "whitespace_rests s =
     (let k = length (takeWhile is_space s) in map (\<lambda>j. drop j s) (rev [1..<Suc k]))"

text \<open>\<^verbatim>\<open>int(text)\<close> on the text of a group: digits, after a blank in one alternative of the
  day.\<close>

definition int_of_text :: "string \<Rightarrow> nat" where
  "int_of_text s =
     foldl (\<lambda>acc c. 10 * acc + (char_code c - 48)) 0
       (filter (\<lambda>c. 48 \<le> char_code c \<and> char_code c \<le> 57) s)"

text \<open>All ways to match, the one the library finds first: the five numbers and the data left
  over.\<close>

definition regex_match :: "string \<Rightarrow> ((nat \<times> nat \<times> nat \<times> nat \<times> nat) \<times> string) list" where
  "regex_match s =
     [((int_of_text Y, int_of_text m, int_of_text d, int_of_text H, int_of_text M), r6).
        (Y, r1) \<leftarrow> alternatives directive_Y s,
        (m, r2) \<leftarrow> alternatives directive_m r1,
        (d, r3) \<leftarrow> alternatives directive_d r2,
        r4 \<leftarrow> whitespace_rests r3,
        (H, r5) \<leftarrow> alternatives directive_H r4,
        take 1 r5 = '':'',
        (M, r6) \<leftarrow> alternatives directive_M (drop 1 r5)]"

text \<open>\<^verbatim>\<open>repr\<close> of a string, which the error text contains.\<close>

definition hex2 :: "nat \<Rightarrow> string" where
  "hex2 n = [''0123456789abcdef'' ! (n div 16), ''0123456789abcdef'' ! (n mod 16)]"

definition py_escape :: "char \<Rightarrow> char \<Rightarrow> string" where
  "py_escape q c =
     (let n = char_code c in
      if c = q \<or> n = 92 then [CHR 0x5C, c]
      else if n = 9 then [CHR 0x5C, CHR ''t'']
      else if n = 10 then [CHR 0x5C, CHR ''n'']
      else if n = 13 then [CHR 0x5C, CHR ''r'']
      else if n < 32 \<or> n = 127 \<or> (128 \<le> n \<and> n \<le> 160) \<or> n = 173
           then [CHR 0x5C, CHR ''x''] @ hex2 n
      else [c])"

definition py_repr :: "string \<Rightarrow> string" where
  "py_repr s =
     (let q = (if CHR 0x27 \<in> set s \<and> CHR 0x22 \<notin> set s then CHR 0x22 else CHR 0x27)
      in [q] @ concat (map (py_escape q) s) @ [q])"

definition strptime_ymd_hm :: "string \<Rightarrow> string \<Rightarrow> exn + datetime" where
  "strptime_ymd_hm data fmt =
     (case regex_match data of
        [] \<Rightarrow> Inl (ValueError (''time data '' @ py_repr data @
                 '' does not match format '' @ py_repr fmt))
      | ((Y, m, d, H, M), rest) # _ \<Rightarrow>
          if rest \<noteq> [] then Inl (ValueError (''unconverted data remains: '' @ rest))
          else if Y < 1 then Inl (ValueError ''year 0 is out of range'')
          else if days_in_months Y ! (m - 1) < d
               then Inl (ValueError ''day is out of range for month'')
          else Inr \<lparr>dt_year = Y, dt_month = m, dt_day = d, dt_hour = H, dt_minute = M\<rparr>)"

subsection \<open>The mean of an array of 32-bit floats\<close>

text \<open>
  Rounding to the nearest 32-bit float, ties to the even significand (24 bits). The range
  of the exponent is not bounded here: the function is meant for numbers of ordinary size,
  where no overflow and no subnormal number occurs.
\<close>

definition round_half_even :: "real \<Rightarrow> int" where
  "round_half_even y =
     (let f = \<lfloor>y\<rfloor> in
      if y - of_int f < 1 / 2 then f
      else if 1 / 2 < y - of_int f then f + 1
      else if even f then f else f + 1)"

definition f32 :: "real \<Rightarrow> real" where
  "f32 x =
     (if x = 0 then 0
      else let e = \<lfloor>log 2 \<bar>x\<bar>\<rfloor>;
               u = 2 powr (of_int e - 23)
           in sgn x * of_int (round_half_even (\<bar>x\<bar> / u)) * u)"

definition fadd :: "real \<Rightarrow> real \<Rightarrow> real" where
  "fadd a b = f32 (a + b)"

text \<open>
  \<^verbatim>\<open>np.mean\<close> on such an array is its sum, taken in 32-bit floats, divided by the number
  of elements. The sum is NumPy's pairwise summation: fewer than 8 elements are added
  from left to right; up to 128 elements are added into 8 accumulators, element \<open>i\<close> into
  accumulator \<open>i mod 8\<close>, which are then added in pairs, and the elements after the last
  full group of 8 are added to the result; a longer array is cut at a multiple of 8 near
  its middle and the sums of the two parts are added.
\<close>

definition block_sum :: "real list \<Rightarrow> real" where
  "block_sum a =
     (let n = length a;
          m = n - n mod 8;
          r = (\<lambda>j. foldl fadd (a ! j) (map (\<lambda>k. a ! (8 * k + j)) [1..<m div 8]));
          res = fadd (fadd (fadd (r 0) (r 1)) (fadd (r 2) (r 3)))
                     (fadd (fadd (r 4) (r 5)) (fadd (r 6) (r 7)))
      in foldl fadd res (drop m a))"

function pairwise_sum :: "real list \<Rightarrow> real" where
  "pairwise_sum a =
     (if length a < 8 then foldl fadd 0 a
      else if length a \<le> 128 then block_sum a
      else let n2 = length a div 2 - (length a div 2) mod 8
           in fadd (pairwise_sum (take n2 a)) (pairwise_sum (drop n2 a)))"
  by pat_completeness auto
termination
proof (relation "measure length")
  show "wf (measure length)" by simp
next
  fix a :: "real list" and x :: nat
  assume h: "\<not> length a < 8" "\<not> length a \<le> 128"
    "x = length a div 2 - length a div 2 mod 8"
  have "64 \<le> length a div 2" "length a div 2 < length a" "length a div 2 mod 8 < 8"
    using h(2) by simp_all
  then have x: "0 < x" "x < length a" using h(3) by linarith+
  show "(take x a, a) \<in> measure length" using x by simp
  show "(drop x a, a) \<in> measure length" using x by simp
qed

declare pairwise_sum.simps [simp del]

definition np_mean_float32 :: "real list list \<Rightarrow> real" where
  "np_mean_float32 a =
     (let xs = concat a in f32 (fadd 0 (pairwise_sum xs) / real (length xs)))"

subsection \<open>Models and generators\<close>

text \<open>Two stand-ins for the opaque model: one returns the same pair of mean and uncertainty at
  each of the \<open>128 \<times> 128\<close> pixels, the other raises.\<close>

definition constant_model :: "real \<Rightarrow> real \<Rightarrow> tensor list \<Rightarrow> exn + prediction" where
  "constant_model c u batch = Inr (replicate 128 (replicate 128 (c, u)))"

definition failing_model :: "string \<Rightarrow> tensor list \<Rightarrow> exn + prediction" where
  "failing_model txt batch = Inl (Exception txt)"

text \<open>A generator whose \<^verbatim>\<open>random()\<close> returns the same value at every call.\<close>

definition constant_stream :: "real \<Rightarrow> nat \<Rightarrow> real" where
  "constant_stream c n = c"

section \<open>Reading the tables\<close>

text \<open>The entry of a nested table under a label, a key and a region, when all three
  levels have one. It is used to state what the lookups of the adjustment step find.\<close>

definition table_entry ::
    "(string \<rightharpoonup> (string \<rightharpoonup> (RegionType \<rightharpoonup> real))) \<Rightarrow> string \<Rightarrow> string \<Rightarrow> RegionType
      \<Rightarrow> real option" where
  "table_entry params label key region =
     Option.bind (Option.bind (params label) (\<lambda>m. m key)) (\<lambda>t. t region)"

section \<open>Auxiliary definitions for the statements\<close>

text \<open>The two exponentials that \<^verbatim>\<open>_calculate_enhanced_values\<close> takes of the activity
  (in \<open>sigmoid_scale\<close> with steepness 5, and in \<open>exp_scale\<close>) do not overflow.\<close>

definition exp_in_range :: "real \<Rightarrow> bool" where
  "exp_in_range nm = (exp (- 5 * (nm - 0.5)) < 2 ^ 1024 \<and> exp (3 * nm) < 2 ^ 1024)"

text \<open>The values and the generator that \<^verbatim>\<open>_calculate_enhanced_values\<close> returns in that
  case (\<open>calculate_enhanced_values_in_range\<close> below).\<close>

definition enhanced_values ::
    "'g uniform \<Rightarrow> real \<Rightarrow> base_values \<Rightarrow> 'g \<Rightarrow> sensor_values \<times> 'g" where
  "enhanced_values uniform nm adj g0 =
     (let (bme_t, g1) = add_sensor_noise uniform
            (temperature adj + (2 * 15) / (1 + exp (- 5 * (nm - 0.5)))) 0.01 0.1 g0;
          (bme_h, g2) = add_sensor_noise uniform
            (min 100 (max 10 (humidity adj + nm * 50))) 0.005 0.1 g1;
          (bme_p, g3) = add_sensor_noise uniform
            (max 950 (min 1050 (pressure adj - nm * 5))) 0.001 0.1 g2;
          (bme_g, g4) = add_sensor_noise uniform
            (gas_resistance adj + 150000 * (exp (3 * nm) / exp 3)) 0.02 0.1 g3;
          (mcp_t, g5) = add_sensor_noise uniform
            (temperature adj + (2 * 15) / (1 + exp (- 5 * (nm - 0.5)))) 0.01 0.1 g4;
          (co2, g6) = add_sensor_noise uniform
            (CO2 adj + 600 * (exp (3 * nm) / exp 3)) 0.02 1.0 g5;
          (voc, g7) = add_sensor_noise uniform
            (VOC adj + 400 * (exp (3 * nm) / exp 3)) 0.02 0.5 g6;
          (pm1, g8) = add_sensor_noise uniform
            (PM1_0 adj + 25 * (exp (3 * nm) / exp 3)) 0.05 0.1 g7;
          (pm25, g9) = add_sensor_noise uniform
            (PM2_5 adj + 30 * (exp (3 * nm) / exp 3)) 0.05 0.1 g8;
          (pm10, g10) = add_sensor_noise uniform
            (PM10 adj + 40 * (exp (3 * nm) / exp 3)) 0.05 0.1 g9
      in (\<lparr>BME688 = \<lparr>bme_temperature = bme_t, bme_humidity = bme_h,
                      bme_pressure = bme_p, bme_gas_resistance = bme_g\<rparr>,
           MCP9808_temperature = mcp_t,
           CO2_value = co2,
           VOC_value = voc,
           PM1_0_value = max 0 pm1,
           PM2_5_value = max 0 pm25,
           PM10_value = max 0 pm10\<rparr>, g10))"

text \<open>That call as \<^verbatim>\<open>predict\<close> makes it, for a timestamp \<open>dt\<close> and a model output
  \<open>pred\<close>: the values before the constraint pass, and the generator after the ten draws.\<close>

definition synthesized ::
    "(real list list \<Rightarrow> real) \<Rightarrow> 'g uniform \<Rightarrow> 'g \<Rightarrow> real \<Rightarrow> real \<Rightarrow> datetime \<Rightarrow> prediction
      \<Rightarrow> sensor_values \<times> 'g" where
  "synthesized np_mean uniform g lat lon dt pred =
     enhanced_values uniform (normalized_mean np_mean (map (map fst) pred))
       (apply_temporal_adjustments (regional_base_values (determine_region_type lat lon)) dt
          (determine_region_type lat lon)) g"

text \<open>\<^verbatim>\<open>str(e)\<close>, and the \<^verbatim>\<open>message\<close> that the \<^verbatim>\<open>except\<close> clause for the class of
  \<open>e\<close> puts into the returned dictionary.\<close>

definition exn_text :: "exn \<Rightarrow> string" where
  "exn_text e = (case e of ValueError txt \<Rightarrow> txt | Exception txt \<Rightarrow> txt)"

definition error_message :: "exn \<Rightarrow> string" where
  "error_message e = (case e of ValueError txt \<Rightarrow> ''Invalid date/time format or input values''
                      | Exception txt \<Rightarrow> ''Prediction failed'')"

section \<open>Properties of the classifier\<close>

text \<open>
  C1. The claim is that the classifier sends latitude 40.7, longitude -74.0 to Urban
  through the first entry of the city list. On the code the temperate-forest rule
  \<open>40 < lat < 60, -130 < lon < -70\<close> is tested four rules earlier and already matches
  this point, so the city test is never reached and the result is FOREST_TEMPERATE.
\<close>

theorem classify_nyc_is_forest_temperate:
  "determine_region_type 40.7 (-74.0) = FOREST_TEMPERATE"
  by (simp add: determine_region_type_def)

text \<open>
  C8. The classifier sends latitude 27, longitude 0 to Desert: the ocean rule, tested
  first, needs the longitude strictly inside one of its open bands and 0 is in none of
  them (in particular not in \<open>0 < lon < 20\<close>), and the desert band
  \<open>15 < lat < 30, -10 < lon < 50\<close> contains the point.
\<close>

theorem classify_27_0_is_desert:
  "determine_region_type 27 0 = DESERT
   \<and> \<not> (\<bar>27::real\<bar> < 30 \<and> ((0 < (0::real) \<and> (0::real) < 20) \<or> (60 < (0::real) \<and> (0::real) < 100)
          \<or> (140 < (0::real) \<and> (0::real) < 180) \<or> (-140 < (0::real) \<and> (0::real) < -60)
          \<or> (-20 < (0::real) \<and> (0::real) < 0)))
   \<and> (15 < (27::real) \<and> (27::real) < 30 \<and> -10 < (0::real) \<and> (0::real) < 50)"
  by (simp add: determine_region_type_def)

section \<open>The adjustment tables\<close>

text \<open>The two labels always name an entry of their table, and under each of the three keys
  every region has a value: the defaults of the \<^verbatim>\<open>.get\<close> calls are never used.\<close>

lemma season_cases:
  "season (datetime_to_features dt) \<in> {''spring'', ''summer'', ''fall'', ''winter''}"
  by (simp add: datetime_to_features_def Let_def)

lemma time_of_day_cases:
  "time_of_day (datetime_to_features dt) \<in> {''morning'', ''afternoon'', ''evening'', ''night''}"
  by (simp add: datetime_to_features_def Let_def)

lemma dict_get_entry:
  "table_entry params label key region = Some a \<Longrightarrow>
   dict_get (dict_get (dict_get params label Map.empty) key Map.empty) region d = a"
  by (auto simp: table_entry_def dict_get_def Option.bind_eq_Some_conv split: option.splits)

lemma seasonal_entry_defined:
  "s \<in> {''spring'', ''summer'', ''fall'', ''winter''} \<Longrightarrow>
   k \<in> {''temp_shift'', ''humidity_shift'', ''pollution_factor''} \<Longrightarrow>
   table_entry seasonal_params s k region \<noteq> None"
  by (elim insertE emptyE; cases region; simp add: table_entry_def seasonal_params_def)

lemma diurnal_entry_defined:
  "s \<in> {''morning'', ''afternoon'', ''evening'', ''night''} \<Longrightarrow>
   k \<in> {''temp_shift'', ''humidity_shift'', ''pollution_factor''} \<Longrightarrow>
   table_entry diurnal_params s k region \<noteq> None"
  by (elim insertE emptyE; cases region; simp add: table_entry_def diurnal_params_def)

text \<open>
  C7. For every baseline, region and timestamp the adjustment step finds the six table
  entries (season and time-of-day entries of the temperature shift, the humidity shift and
  the pollution factor) and returns: temperature plus the sum of the two temperature shifts
  scaled by \<open>1 + 0.1 \<cdot> seasonal_sin\<close>; humidity plus the two humidity shifts, clamped to
  \<open>[10, 100]\<close>; pressure and gas resistance unchanged; CO2 and PM1.0 times the product of
  the two pollution factors; VOC, PM2.5 and PM10 times that product and times 1.2, 1.3, 1.4
  for Urban and 1.1, 1.2, 1.2 otherwise.
\<close>

theorem temporal_adjustments_formula:
  "\<exists>season_temp diurnal_temp season_hum diurnal_hum season_pol diurnal_pol.
     table_entry seasonal_params (season (datetime_to_features dt)) ''temp_shift'' region = Some season_temp
   \<and> table_entry diurnal_params (time_of_day (datetime_to_features dt)) ''temp_shift'' region = Some diurnal_temp
   \<and> table_entry seasonal_params (season (datetime_to_features dt)) ''humidity_shift'' region = Some season_hum
   \<and> table_entry diurnal_params (time_of_day (datetime_to_features dt)) ''humidity_shift'' region = Some diurnal_hum
   \<and> table_entry seasonal_params (season (datetime_to_features dt)) ''pollution_factor'' region = Some season_pol
   \<and> table_entry diurnal_params (time_of_day (datetime_to_features dt)) ''pollution_factor'' region = Some diurnal_pol
   \<and> apply_temporal_adjustments base dt region =
       \<lparr>temperature = temperature base
            + (season_temp + diurnal_temp) * (1 + 0.1 * seasonal_sin (datetime_to_features dt)),
        humidity = min 100 (max 10 (humidity base + season_hum + diurnal_hum)),
        pressure = pressure base,
        gas_resistance = gas_resistance base,
        CO2 = CO2 base * (season_pol * diurnal_pol),
        VOC = VOC base * (season_pol * diurnal_pol) * (if region = URBAN then 1.2 else 1.1),
        PM1_0 = PM1_0 base * (season_pol * diurnal_pol),
        PM2_5 = PM2_5 base * (season_pol * diurnal_pol) * (if region = URBAN then 1.3 else 1.2),
        PM10 = PM10 base * (season_pol * diurnal_pol) * (if region = URBAN then 1.4 else 1.2)\<rparr>"
proof -
  let ?f = "datetime_to_features dt"
  obtain st where st: "table_entry seasonal_params (season ?f) ''temp_shift'' region = Some st"
    using seasonal_entry_defined[OF season_cases, of "''temp_shift''" dt region] by auto
  obtain sh where sh: "table_entry seasonal_params (season ?f) ''humidity_shift'' region = Some sh"
    using seasonal_entry_defined[OF season_cases, of "''humidity_shift''" dt region] by auto
  obtain sp where sp: "table_entry seasonal_params (season ?f) ''pollution_factor'' region = Some sp"
    using seasonal_entry_defined[OF season_cases, of "''pollution_factor''" dt region] by auto
  obtain dt' where dt': "table_entry diurnal_params (time_of_day ?f) ''temp_shift'' region = Some dt'"
    using diurnal_entry_defined[OF time_of_day_cases, of "''temp_shift''" dt region] by auto
  obtain dh where dh: "table_entry diurnal_params (time_of_day ?f) ''humidity_shift'' region = Some dh"
    using diurnal_entry_defined[OF time_of_day_cases, of "''humidity_shift''" dt region] by auto
  obtain dp where dp: "table_entry diurnal_params (time_of_day ?f) ''pollution_factor'' region = Some dp"
    using diurnal_entry_defined[OF time_of_day_cases, of "''pollution_factor''" dt region] by auto
  have "apply_temporal_adjustments base dt region =
       \<lparr>temperature = temperature base + (st + dt') * (1 + 0.1 * seasonal_sin ?f),
        humidity = min 100 (max 10 (humidity base + sh + dh)),
        pressure = pressure base,
        gas_resistance = gas_resistance base,
        CO2 = CO2 base * (sp * dp),
        VOC = VOC base * (sp * dp) * (if region = URBAN then 1.2 else 1.1),
        PM1_0 = PM1_0 base * (sp * dp),
        PM2_5 = PM2_5 base * (sp * dp) * (if region = URBAN then 1.3 else 1.2),
        PM10 = PM10 base * (sp * dp) * (if region = URBAN then 1.4 else 1.2)\<rparr>"
    unfolding apply_temporal_adjustments_def Let_def
      dict_get_entry[OF st] dict_get_entry[OF sh] dict_get_entry[OF sp]
      dict_get_entry[OF dt'] dict_get_entry[OF dh] dict_get_entry[OF dp]
    by (cases base) (simp add: algebra_simps)
  with st sh sp dt' dh dp show ?thesis by blast
qed

lemma summer_afternoon_labels:
  "season (datetime_to_features \<lparr>dt_year = 2025, dt_month = 6, dt_day = 15, dt_hour = 14, dt_minute = 0\<rparr>) = ''summer''"
  "time_of_day (datetime_to_features \<lparr>dt_year = 2025, dt_month = 6, dt_day = 15, dt_hour = 14, dt_minute = 0\<rparr>) = ''afternoon''"
  by (simp_all add: datetime_to_features_def Let_def)

lemma urban_summer_afternoon_entries:
  "table_entry seasonal_params ''summer'' ''temp_shift'' URBAN = Some 5"
  "table_entry diurnal_params ''afternoon'' ''temp_shift'' URBAN = Some 4"
  "table_entry seasonal_params ''summer'' ''humidity_shift'' URBAN = Some 5"
  "table_entry diurnal_params ''afternoon'' ''humidity_shift'' URBAN = Some (-10)"
  "table_entry seasonal_params ''summer'' ''pollution_factor'' URBAN = Some 1.4"
  "table_entry diurnal_params ''afternoon'' ''pollution_factor'' URBAN = Some 1.2"
  by (simp_all add: table_entry_def seasonal_params_def diurnal_params_def)

text \<open>C7 for the Urban baseline on 15 June 2025, 14:00 (summer, afternoon): the shifts are
  5 and 4 for the temperature, 5 and -10 for the humidity, the pollution factors 1.4 and
  1.2.\<close>

theorem temporal_adjustments_formula_witness:
  "apply_temporal_adjustments (regional_base_values URBAN)
     \<lparr>dt_year = 2025, dt_month = 6, dt_day = 15, dt_hour = 14, dt_minute = 0\<rparr> URBAN =
   \<lparr>temperature = 24 + (5 + 4) * (1 + 0.1 * seasonal_sin (datetime_to_features
        \<lparr>dt_year = 2025, dt_month = 6, dt_day = 15, dt_hour = 14, dt_minute = 0\<rparr>)),
    humidity = 60,
    pressure = 1012,
    gas_resistance = 40000,
    CO2 = 450 * (1.4 * 1.2),
    VOC = 300 * (1.4 * 1.2) * 1.2,
    PM1_0 = 10 * (1.4 * 1.2),
    PM2_5 = 20 * (1.4 * 1.2) * 1.3,
    PM10 = 30 * (1.4 * 1.2) * 1.4\<rparr>"
  using temporal_adjustments_formula[of
      "\<lparr>dt_year = 2025, dt_month = 6, dt_day = 15, dt_hour = 14, dt_minute = 0\<rparr>" URBAN
      "regional_base_values URBAN"]
  unfolding summer_afternoon_labels urban_summer_afternoon_entries option.inject
  by clarify (simp add: regional_base_values_def)

lemma calibration_lookup:
  "dict_subscript calibration_factors (if r = URBAN then ''urban'' else ''rural'') =
     Inr (if r = URBAN then \<lparr>cal_CO2 = 1.1, cal_VOC = 1.2, cal_PM = 1.3\<rparr>
          else \<lparr>cal_CO2 = 1.0, cal_VOC = 1.0, cal_PM = 1.0\<rparr>)"
  by (simp add: dict_subscript_def calibration_factors_def)

lemma apply_physics_constraints_Inr:
  "apply_physics_constraints vals lat lon dt =
     Inr \<lparr>BME688 = \<lparr>bme_temperature = bme_temperature (BME688 vals) - elevation_factor lat lon * 2,
                    bme_humidity = bme_humidity (BME688 vals),
                    bme_pressure = bme_pressure (BME688 vals) * (1 - elevation_factor lat lon * 0.00012),
                    bme_gas_resistance = bme_gas_resistance (BME688 vals)\<rparr>,
         MCP9808_temperature = MCP9808_temperature vals - elevation_factor lat lon * 2,
         CO2_value = CO2_value vals * (if determine_region_type lat lon = URBAN then 1.1 else 1),
         VOC_value = VOC_value vals * (if determine_region_type lat lon = URBAN then 1.2 else 1),
         PM1_0_value = PM1_0_value vals * (if determine_region_type lat lon = URBAN then 1.3 else 1),
         PM2_5_value = PM2_5_value vals * (if determine_region_type lat lon = URBAN then 1.3 else 1),
         PM10_value = PM10_value vals * (if determine_region_type lat lon = URBAN then 1.3 else 1)\<rparr>"
  unfolding apply_physics_constraints_def Let_def calibration_lookup elevation_factor_def
  by (cases vals, cases "BME688 vals") simp

section \<open>The scaling functions\<close>

lemma exp_below_overflow:
  fixes x :: real
  assumes "x \<le> 600"
  shows "exp x < 2 ^ 1024"
proof -
  have "exp x \<le> exp (600 :: real)" using assms by simp
  also have "exp (600 :: real) = exp 1 ^ 600"
    using exp_of_nat_mult[of 600 "1 :: real"] by simp
  also have "\<dots> \<le> 3 ^ 600" by (rule power_mono) (simp_all add: exp_le)
  also have "(3 :: real) ^ 600 < 2 ^ 1024" by simp
  finally show ?thesis .
qed

lemma math_exp_3: "math_exp 3 = Inr (exp 3)"
  using exp_below_overflow[of 3] by (simp add: math_exp_def)

lemma sigmoid_scale_in_range:
  "exp_in_range nm \<Longrightarrow>
   sigmoid_scale b nm 15 5 = Inr (b + (2 * 15) / (1 + exp (- 5 * (nm - 0.5))))"
  by (simp add: sigmoid_scale_def math_exp_def exp_in_range_def)

lemma exp_scale_in_range:
  "exp_in_range nm \<Longrightarrow> exp_scale b nm rs = Inr (b + rs * (exp (3 * nm) / exp 3))"
  unfolding exp_scale_def math_exp_3 by (simp add: math_exp_def exp_in_range_def)

lemma sigmoid_scale_overflow:
  "\<not> exp (- 5 * (nm - 0.5)) < 2 ^ 1024 \<Longrightarrow>
   sigmoid_scale b nm 15 5 = Inl (Exception ''math range error'')"
  by (simp add: sigmoid_scale_def math_exp_def)

lemma exp_scale_overflow:
  "\<not> exp (3 * nm) < 2 ^ 1024 \<Longrightarrow> exp_scale b nm rs = Inl (Exception ''math range error'')"
  by (simp add: exp_scale_def math_exp_def)

lemma calculate_enhanced_values_in_range:
  assumes "exp_in_range nm"
  shows "calculate_enhanced_values uniform nm adj g =
           (Inr (fst (enhanced_values uniform nm adj g)), snd (enhanced_values uniform nm adj g))"
  unfolding calculate_enhanced_values_def enhanced_values_def
    sigmoid_scale_in_range[OF assms] exp_scale_in_range[OF assms] on_value_def
  by (simp add: Let_def split_beta)

lemma exp_above_overflow:
  fixes x :: real
  assumes "1024 \<le> x"
  shows "\<not> exp x < 2 ^ 1024"
proof -
  have "(2 :: real) \<le> exp 1" using exp_ge_add_one_self[of "1 :: real"] by simp
  then have "(2 :: real) ^ 1024 \<le> exp 1 ^ 1024" by (rule power_mono) simp
  also have "exp 1 ^ 1024 = exp (1024 :: real)"
    using exp_of_nat_mult[of 1024 "1 :: real"] by simp
  also have "\<dots> \<le> exp x" using assms by simp
  finally show ?thesis by (simp add: not_less)
qed

text \<open>When an exponential overflows: in the first \<open>sigmoid_scale\<close> before any draw, in the
  first \<open>exp_scale\<close> after three draws.\<close>

lemma calculate_enhanced_values_sigmoid_overflow:
  assumes "\<not> exp (- 5 * (nm - 0.5)) < 2 ^ 1024"
  shows "calculate_enhanced_values uniform nm adj g = (Inl (Exception ''math range error''), g)"
  unfolding calculate_enhanced_values_def sigmoid_scale_overflow[OF assms] on_value_def
  by simp

lemma calculate_enhanced_values_exp_overflow:
  assumes "exp (- 5 * (nm - 0.5)) < 2 ^ 1024" and "\<not> exp (3 * nm) < 2 ^ 1024"
  shows "calculate_enhanced_values uniform nm adj g =
     (Inl (Exception ''math range error''),
      snd (add_sensor_noise uniform (max 950 (min 1050 (pressure adj - nm * 5))) 0.001 0.1
        (snd (add_sensor_noise uniform (min 100 (max 10 (humidity adj + nm * 50))) 0.005 0.1
          (snd (add_sensor_noise uniform
             (temperature adj + (2 * 15) / (1 + exp (- 5 * (nm - 0.5)))) 0.01 0.1 g))))))"
proof -
  have s: "sigmoid_scale b nm 15 5 = Inr (b + (2 * 15) / (1 + exp (- 5 * (nm - 0.5))))" for b
    using assms(1) by (simp add: sigmoid_scale_def math_exp_def)
  show ?thesis
    unfolding calculate_enhanced_values_def s exp_scale_overflow[OF assms(2)] on_value_def
    by (simp add: Let_def split_beta)
qed

lemma calculate_enhanced_values_overflow:
  assumes "\<not> exp_in_range nm"
  shows "fst (calculate_enhanced_values uniform nm adj g) = Inl (Exception ''math range error'')"
proof (cases "exp (- 5 * (nm - 0.5)) < 2 ^ 1024")
  case False
  show ?thesis
    unfolding calculate_enhanced_values_sigmoid_overflow[OF False] by simp
next
  case True
  then have e: "\<not> exp (3 * nm) < 2 ^ 1024" using assms by (simp add: exp_in_range_def)
  show ?thesis
    unfolding calculate_enhanced_values_exp_overflow[OF True e] by simp
qed

section \<open>What a successful call returns\<close>

lemma predict_Success_eq:
  assumes "strptime (date_str @ '' '' @ time_or_default time_str) ''%Y%m%d %H:%M'' = Inr dt"
    and "model [generate_synthetic_patch lat lon dt] = Inr pred"
    and "concat (map (map fst) pred) \<noteq> []"
    and "exp_in_range (normalized_mean np_mean (map (map fst) pred))"
  shows "fst (predict strptime model np_mean uniform g date_str lat lon time_str) =
           Success (let v = fst (synthesized np_mean uniform g lat lon dt pred);
                     urban = (determine_region_type lat lon = URBAN) in
                 \<lparr>BME688 =
                    \<lparr>bme_temperature = bme_temperature (BME688 v) - elevation_factor lat lon * 2,
                     bme_humidity = bme_humidity (BME688 v),
                     bme_pressure = bme_pressure (BME688 v) * (1 - elevation_factor lat lon * 0.00012),
                     bme_gas_resistance = bme_gas_resistance (BME688 v)\<rparr>,
                  MCP9808_temperature = MCP9808_temperature v - elevation_factor lat lon * 2,
                  CO2_value = CO2_value v * (if urban then 1.1 else 1),
                  VOC_value = VOC_value v * (if urban then 1.2 else 1),
                  PM1_0_value = PM1_0_value v * (if urban then 1.3 else 1),
                  PM2_5_value = PM2_5_value v * (if urban then 1.3 else 1),
                  PM10_value = PM10_value v * (if urban then 1.3 else 1),
                  metadata =
                    \<lparr>latitude = lat, longitude = lon, date = date_str,
                     time = time_or_default time_str,
                     meta_season = season (datetime_to_features dt),
                     meta_time_of_day = time_of_day (datetime_to_features dt),
                     normalized_activity = normalized_mean np_mean (map (map fst) pred),
                     uncertainty = np_mean (map (map snd) pred)\<rparr>\<rparr>)"
  using assms
  by (simp add: predict_def predict_body_def Let_def synthesized_def
      apply_physics_constraints_Inr calculate_enhanced_values_in_range)

lemma predict_is_Success:
  assumes "strptime (date_str @ '' '' @ time_or_default time_str) ''%Y%m%d %H:%M'' = Inr dt"
    and "model [generate_synthetic_patch lat lon dt] = Inr pred"
    and "concat (map (map fst) pred) \<noteq> []"
    and "exp_in_range (normalized_mean np_mean (map (map fst) pred))"
  shows "is_Success (fst (predict strptime model np_mean uniform g date_str lat lon time_str))"
  using assms
  by (simp add: predict_def predict_body_def Let_def
      apply_physics_constraints_Inr calculate_enhanced_values_in_range)

lemma predict_overflow:
  assumes "strptime (date_str @ '' '' @ time_or_default time_str) ''%Y%m%d %H:%M'' = Inr dt"
    and "model [generate_synthetic_patch lat lon dt] = Inr pred"
    and "concat (map (map fst) pred) \<noteq> []"
    and "\<not> exp_in_range (normalized_mean np_mean (map (map fst) pred))"
  shows "fst (predict strptime model np_mean uniform g date_str lat lon time_str) =
           Failure \<lparr>error = ''math range error'', message = ''Prediction failed''\<rparr>"
proof -
  let ?c = "calculate_enhanced_values uniform (normalized_mean np_mean (map (map fst) pred))
     (apply_temporal_adjustments (regional_base_values (determine_region_type lat lon)) dt
          (determine_region_type lat lon)) g"
  have "?c = (fst ?c, snd ?c)" by simp
  then have "?c = (Inl (Exception ''math range error''), snd ?c)"
    unfolding calculate_enhanced_values_overflow[OF assms(4)] .
  then obtain g' where "?c = (Inl (Exception ''math range error''), g')" ..
  then show ?thesis
    using assms(1-3) by (simp add: predict_def predict_body_def Let_def)
qed

lemma predict_Success_fields:
  assumes "fst (predict strptime model np_mean uniform g date_str lat lon time_str) = Success r"
  shows "\<exists>dt pred. strptime (date_str @ '' '' @ time_or_default time_str) ''%Y%m%d %H:%M'' = Inr dt
          \<and> model [generate_synthetic_patch lat lon dt] = Inr pred
          \<and> concat (map (map fst) pred) \<noteq> []
          \<and> exp_in_range (normalized_mean np_mean (map (map fst) pred))
          \<and> r = (let v = fst (synthesized np_mean uniform g lat lon dt pred);
                     urban = (determine_region_type lat lon = URBAN) in
                 \<lparr>BME688 =
                    \<lparr>bme_temperature = bme_temperature (BME688 v) - elevation_factor lat lon * 2,
                     bme_humidity = bme_humidity (BME688 v),
                     bme_pressure = bme_pressure (BME688 v) * (1 - elevation_factor lat lon * 0.00012),
                     bme_gas_resistance = bme_gas_resistance (BME688 v)\<rparr>,
                  MCP9808_temperature = MCP9808_temperature v - elevation_factor lat lon * 2,
                  CO2_value = CO2_value v * (if urban then 1.1 else 1),
                  VOC_value = VOC_value v * (if urban then 1.2 else 1),
                  PM1_0_value = PM1_0_value v * (if urban then 1.3 else 1),
                  PM2_5_value = PM2_5_value v * (if urban then 1.3 else 1),
                  PM10_value = PM10_value v * (if urban then 1.3 else 1),
                  metadata =
                    \<lparr>latitude = lat, longitude = lon, date = date_str,
                     time = time_or_default time_str,
                     meta_season = season (datetime_to_features dt),
                     meta_time_of_day = time_of_day (datetime_to_features dt),
                     normalized_activity = normalized_mean np_mean (map (map fst) pred),
                     uncertainty = np_mean (map (map snd) pred)\<rparr>\<rparr>)"
proof -
  from assms obtain dt pred where
    dt: "strptime (date_str @ '' '' @ time_or_default time_str) ''%Y%m%d %H:%M'' = Inr dt"
    and pred: "model [generate_synthetic_patch lat lon dt] = Inr pred"
    and ne: "concat (map (map fst) pred) \<noteq> []"
    by (auto simp: predict_def predict_body_def Let_def
        split: sum.splits exn.splits if_splits prod.splits)
  show ?thesis
  proof (cases "exp_in_range (normalized_mean np_mean (map (map fst) pred))")
    case True
    from predict_Success_eq[where strptime = strptime and model = model and np_mean = np_mean
        and uniform = uniform and g = g, OF dt pred ne True] assms dt pred ne True
    show ?thesis by (intro exI[of _ dt] exI[of _ pred]) simp
  next
    case False
    from predict_overflow[where strptime = strptime and model = model and np_mean = np_mean
        and uniform = uniform and g = g, OF dt pred ne False] assms
    show ?thesis by simp
  qed
qed

section \<open>Rounding to 32-bit floats\<close>

text \<open>Scaling by a power of two commutes with the rounding, and the rounding of a number
  in a known binade is computed from the integer nearest to its scaled significand.\<close>

lemma f32_double: "f32 (2 * x) = 2 * f32 x"
proof (cases "x = 0")
  case True
  then show ?thesis by (simp add: f32_def)
next
  case False
  then have p: "0 < \<bar>x\<bar>" by simp
  have l: "log 2 \<bar>2 * x\<bar> = 1 + log 2 \<bar>x\<bar>"
    using p by (simp add: abs_mult log_mult)
  have e: "\<lfloor>log 2 \<bar>2 * x\<bar>\<rfloor> = \<lfloor>log 2 \<bar>x\<bar>\<rfloor> + 1"
    unfolding l by linarith
  have "(2::real) powr (1 + (of_int \<lfloor>log 2 \<bar>x\<bar>\<rfloor> - 23)) = 2 powr 1 * 2 powr (of_int \<lfloor>log 2 \<bar>x\<bar>\<rfloor> - 23)"
    by (rule powr_add)
  then have u: "(2::real) powr (of_int (\<lfloor>log 2 \<bar>x\<bar>\<rfloor> + 1) - 23) = 2 * 2 powr (of_int \<lfloor>log 2 \<bar>x\<bar>\<rfloor> - 23)"
    by (simp add: algebra_simps)
  have q: "\<bar>2 * x\<bar> / (2 * 2 powr (of_int \<lfloor>log 2 \<bar>x\<bar>\<rfloor> - 23))
             = \<bar>x\<bar> / 2 powr (of_int \<lfloor>log 2 \<bar>x\<bar>\<rfloor> - 23)"
    by (simp add: abs_mult)
  have s: "sgn (2 * x) = sgn x" by (simp add: sgn_mult)
  show ?thesis
    using False unfolding f32_def Let_def e u q s by simp
qed

lemma f32_half: "f32 (x / 2) = f32 x / 2"
  using f32_double[of "x / 2"] by simp

lemma f32_div_pow2: "f32 (x / 2 ^ k) = f32 x / 2 ^ k"
proof (induction k)
  case 0
  then show ?case by simp
next
  case (Suc k)
  have "f32 (x / 2 ^ Suc k) = f32 ((x / 2 ^ k) / 2)" by (simp add: field_simps)
  also have "\<dots> = f32 (x / 2 ^ k) / 2" by (rule f32_half)
  finally show ?case using Suc by (simp add: field_simps)
qed

lemma f32_eval:
  assumes "2 ^ k \<le> x" "x < 2 * 2 ^ k"
  shows "f32 x = of_int (round_half_even (x * 2 ^ 23 / 2 ^ k)) * 2 ^ k / 2 ^ 23"
proof -
  have p: "0 < x" using assms(1) by (smt (verit) zero_less_power)
  have "real k \<le> log 2 x"
    using p assms(1) by (simp add: le_log_iff powr_realpow)
  moreover have "log 2 x < real k + 1"
    using p assms(2) by (simp add: log_less_iff powr_add powr_realpow)
  ultimately have e: "\<lfloor>log 2 \<bar>x\<bar>\<rfloor> = int k" using p by (simp add: floor_eq_iff)
  have "(2::real) powr (real k - real 23) = 2 powr real k / 2 powr real 23"
    by (rule powr_diff)
  then have u: "(2::real) powr (of_int (int k) - 23) = 2 ^ k / 2 ^ 23"
    by (simp add: powr_realpow)
  show ?thesis
    using p unfolding f32_def Let_def e u by (simp add: field_simps)
qed

lemma f32_representable_double:
  assumes "f32 y = y"
  shows "fadd y y = 2 * y" and "f32 (2 * y) = 2 * y"
proof -
  show d: "f32 (2 * y) = 2 * y" using f32_double[of y] assms by simp
  have "y + y = 2 * y" by simp
  then show "fadd y y = 2 * y" unfolding fadd_def using d by simp
qed

text \<open>The mean of a \<open>128 \<times> 128\<close> array whose elements all equal \<open>c\<close>: each of the
  eight accumulators of a block of 128 holds the sum \<open>S\<close> of 16 copies added one by one,
  all later additions double a representable number and are exact, and so is the division
  by \<open>2\<^sup>1\<^sup>4\<close>. The mean is \<open>S / 16\<close>.\<close>

lemma concat_replicate_replicate: "concat (replicate n (replicate m x)) = replicate (n * m) x"
  by (induction n) (simp_all add: replicate_add)

lemma map_nth_replicate:
  assumes "\<And>k. k < 16 \<Longrightarrow> g k < 128"
  shows "map (\<lambda>k. replicate 128 c ! g k) [Suc 0..<16] = replicate 15 c"
proof (rule nth_equalityI)
  show "length (map (\<lambda>k. replicate 128 c ! g k) [Suc 0..<16]) = length (replicate 15 c)"
    by simp
next
  fix i
  assume "i < length (map (\<lambda>k. replicate 128 c ! g k) [Suc 0..<16])"
  then have i: "i < 15" by simp
  then have "g (Suc 0 + i) < 128" by (intro assms) simp
  with i show "map (\<lambda>k. replicate 128 c ! g k) [Suc 0..<16] ! i = replicate 15 c ! i"
    by simp
qed

lemma block_sum_replicate_128:
  "block_sum (replicate 128 c) =
     (let S = foldl fadd c (replicate 15 c)
      in fadd (fadd (fadd S S) (fadd S S)) (fadd (fadd S S) (fadd S S)))"
proof -
  have m:
    "map (\<lambda>k. replicate 128 c ! (8 * k)) [Suc 0..<16] = replicate 15 c"
    "map (\<lambda>k. replicate 128 c ! Suc (8 * k)) [Suc 0..<16] = replicate 15 c"
    "map (\<lambda>k. replicate 128 c ! Suc (Suc (8 * k))) [Suc 0..<16] = replicate 15 c"
    "map (\<lambda>k. replicate 128 c ! (8 * k + 3)) [Suc 0..<16] = replicate 15 c"
    "map (\<lambda>k. replicate 128 c ! (8 * k + 4)) [Suc 0..<16] = replicate 15 c"
    "map (\<lambda>k. replicate 128 c ! (8 * k + 5)) [Suc 0..<16] = replicate 15 c"
    "map (\<lambda>k. replicate 128 c ! (8 * k + 6)) [Suc 0..<16] = replicate 15 c"
    "map (\<lambda>k. replicate 128 c ! (8 * k + 7)) [Suc 0..<16] = replicate 15 c"
    by (rule map_nth_replicate, simp)+
  show ?thesis
    by (simp add: block_sum_def Let_def m)
qed

lemma pairwise_sum_replicate_128:
  "pairwise_sum (replicate 128 c) =
     (let S = foldl fadd c (replicate 15 c)
      in fadd (fadd (fadd S S) (fadd S S)) (fadd (fadd S S) (fadd S S)))"
  by (subst pairwise_sum.simps) (simp add: block_sum_replicate_128)

lemma pairwise_sum_replicate_split:
  assumes "64 < n" "n mod 8 = 0"
  shows "pairwise_sum (replicate (2 * n) c) =
           fadd (pairwise_sum (replicate n c)) (pairwise_sum (replicate n c))"
  using assms by (subst pairwise_sum.simps) (simp add: Let_def min_def)

lemma pairwise_sum_constant:
  assumes "f32 S = S" and "foldl fadd c (replicate 15 c) = S"
  shows "pairwise_sum (replicate 16384 c) = 1024 * S"
proof -
  note d = f32_representable_double
  have r2: "f32 (2 * S) = 2 * S" and a2: "fadd S S = 2 * S" using d[OF assms(1)] by simp_all
  have r4: "f32 (4 * S) = 4 * S" and a4: "fadd (2 * S) (2 * S) = 4 * S" using d[OF r2] by simp_all
  have r8: "f32 (8 * S) = 8 * S" and a8: "fadd (4 * S) (4 * S) = 8 * S" using d[OF r4] by simp_all
  have p128: "pairwise_sum (replicate 128 c) = 8 * S"
    unfolding pairwise_sum_replicate_128 Let_def assms(2) a2 a4 a8 ..
  have r16: "f32 (16 * S) = 16 * S" and a16: "fadd (8 * S) (8 * S) = 16 * S" using d[OF r8] by simp_all
  have p256: "pairwise_sum (replicate 256 c) = 16 * S"
    using pairwise_sum_replicate_split[of 128 c] by (simp add: p128 a16)
  have r32: "f32 (32 * S) = 32 * S" and a32: "fadd (16 * S) (16 * S) = 32 * S" using d[OF r16] by simp_all
  have p512: "pairwise_sum (replicate 512 c) = 32 * S"
    using pairwise_sum_replicate_split[of 256 c] by (simp add: p256 a32)
  have r64: "f32 (64 * S) = 64 * S" and a64: "fadd (32 * S) (32 * S) = 64 * S" using d[OF r32] by simp_all
  have p1024: "pairwise_sum (replicate 1024 c) = 64 * S"
    using pairwise_sum_replicate_split[of 512 c] by (simp add: p512 a64)
  have r128: "f32 (128 * S) = 128 * S" and a128: "fadd (64 * S) (64 * S) = 128 * S" using d[OF r64] by simp_all
  have p2048: "pairwise_sum (replicate 2048 c) = 128 * S"
    using pairwise_sum_replicate_split[of 1024 c] by (simp add: p1024 a128)
  have r256: "f32 (256 * S) = 256 * S" and a256: "fadd (128 * S) (128 * S) = 256 * S" using d[OF r128] by simp_all
  have p4096: "pairwise_sum (replicate 4096 c) = 256 * S"
    using pairwise_sum_replicate_split[of 2048 c] by (simp add: p2048 a256)
  have r512: "f32 (512 * S) = 512 * S" and a512: "fadd (256 * S) (256 * S) = 512 * S" using d[OF r256] by simp_all
  have p8192: "pairwise_sum (replicate 8192 c) = 512 * S"
    using pairwise_sum_replicate_split[of 4096 c] by (simp add: p4096 a512)
  have a1024: "fadd (512 * S) (512 * S) = 1024 * S" using d[OF r512] by simp
  show ?thesis
    using pairwise_sum_replicate_split[of 8192 c] by (simp add: p8192 a1024)
qed

lemma np_mean_float32_constant:
  assumes "f32 S = S" and "foldl fadd c (replicate 15 c) = S"
  shows "np_mean_float32 (replicate 128 (replicate 128 c)) = S / 16"
proof -
  have "f32 (1024 * S) = 2 ^ 10 * f32 S"
    using f32_div_pow2[of "1024 * S" 10] by simp
  then have t: "fadd 0 (1024 * S) = 1024 * S" by (simp add: fadd_def assms(1))
  have "f32 (1024 * S / 16384) = f32 (S / 2 ^ 4)" by simp
  also have "\<dots> = S / 16" unfolding f32_div_pow2 assms(1) by simp
  finally have m: "f32 (1024 * S / 16384) = S / 16" .
  have "np_mean_float32 (replicate 128 (replicate 128 c)) =
          f32 (fadd 0 (pairwise_sum (replicate 16384 c)) / 16384)"
    by (simp add: np_mean_float32_def concat_replicate_replicate)
  then show ?thesis unfolding pairwise_sum_constant[OF assms] t m .
qed

text \<open>The sum of 16 copies, added one by one in 32-bit floats, for four values of \<open>c\<close>:
  \<open>1/2\<close>, and the 32-bit floats nearest to 0.9, 8.1 and 1000.1.\<close>

lemma replicate_15: "replicate 15 c = [c, c, c, c, c, c, c, c, c, c, c, c, c, c, c]"
  by (simp add: eval_nat_numeral)

lemma sum16_half:
  "foldl fadd (1 / 2) (replicate 15 (1 / 2)) = 8"
  "f32 (8) = 8"
proof -
  have s1: "fadd (1 / 2) (1 / 2) = 1"
    unfolding fadd_def using f32_eval[of 0 "1 / 2 + 1 / 2"] by (simp add: round_half_even_def)
  have s2: "fadd (1) (1 / 2) = 3 / 2"
    unfolding fadd_def using f32_eval[of 0 "1 + 1 / 2"] by (simp add: round_half_even_def)
  have s3: "fadd (3 / 2) (1 / 2) = 2"
    unfolding fadd_def using f32_eval[of 1 "3 / 2 + 1 / 2"] by (simp add: round_half_even_def)
  have s4: "fadd (2) (1 / 2) = 5 / 2"
    unfolding fadd_def using f32_eval[of 1 "2 + 1 / 2"] by (simp add: round_half_even_def)
  have s5: "fadd (5 / 2) (1 / 2) = 3"
    unfolding fadd_def using f32_eval[of 1 "5 / 2 + 1 / 2"] by (simp add: round_half_even_def)
  have s6: "fadd (3) (1 / 2) = 7 / 2"
    unfolding fadd_def using f32_eval[of 1 "3 + 1 / 2"] by (simp add: round_half_even_def)
  have s7: "fadd (7 / 2) (1 / 2) = 4"
    unfolding fadd_def using f32_eval[of 2 "7 / 2 + 1 / 2"] by (simp add: round_half_even_def)
  have s8: "fadd (4) (1 / 2) = 9 / 2"
    unfolding fadd_def using f32_eval[of 2 "4 + 1 / 2"] by (simp add: round_half_even_def)
  have s9: "fadd (9 / 2) (1 / 2) = 5"
    unfolding fadd_def using f32_eval[of 2 "9 / 2 + 1 / 2"] by (simp add: round_half_even_def)
  have s10: "fadd (5) (1 / 2) = 11 / 2"
    unfolding fadd_def using f32_eval[of 2 "5 + 1 / 2"] by (simp add: round_half_even_def)
  have s11: "fadd (11 / 2) (1 / 2) = 6"
    unfolding fadd_def using f32_eval[of 2 "11 / 2 + 1 / 2"] by (simp add: round_half_even_def)
  have s12: "fadd (6) (1 / 2) = 13 / 2"
    unfolding fadd_def using f32_eval[of 2 "6 + 1 / 2"] by (simp add: round_half_even_def)
  have s13: "fadd (13 / 2) (1 / 2) = 7"
    unfolding fadd_def using f32_eval[of 2 "13 / 2 + 1 / 2"] by (simp add: round_half_even_def)
  have s14: "fadd (7) (1 / 2) = 15 / 2"
    unfolding fadd_def using f32_eval[of 2 "7 + 1 / 2"] by (simp add: round_half_even_def)
  have s15: "fadd (15 / 2) (1 / 2) = 8"
    unfolding fadd_def using f32_eval[of 3 "15 / 2 + 1 / 2"] by (simp add: round_half_even_def)
  show "foldl fadd (1 / 2) (replicate 15 (1 / 2)) = 8"
    unfolding replicate_15 foldl_Cons foldl_Nil s1 s2 s3 s4 s5 s6 s7 s8 s9 s10 s11 s12 s13 s14 s15 ..
  show "f32 (8) = 8"
    using f32_eval[of 3 "8"] by (simp add: round_half_even_def)
qed

lemma sum16_0_9:
  "foldl fadd (7549747 / 8388608) (replicate 15 (7549747 / 8388608)) = 3774873 / 262144"
  "f32 (3774873 / 262144) = 3774873 / 262144"
proof -
  have s1: "fadd (7549747 / 8388608) (7549747 / 8388608) = 7549747 / 4194304"
    unfolding fadd_def using f32_eval[of 0 "7549747 / 8388608 + 7549747 / 8388608"] by (simp add: round_half_even_def)
  have s2: "fadd (7549747 / 4194304) (7549747 / 8388608) = 2831155 / 1048576"
    unfolding fadd_def using f32_eval[of 1 "7549747 / 4194304 + 7549747 / 8388608"] by (simp add: round_half_even_def)
  have s3: "fadd (2831155 / 1048576) (7549747 / 8388608) = 7549747 / 2097152"
    unfolding fadd_def using f32_eval[of 1 "2831155 / 1048576 + 7549747 / 8388608"] by (simp add: round_half_even_def)
  have s4: "fadd (7549747 / 2097152) (7549747 / 8388608) = 9 / 2"
    unfolding fadd_def using f32_eval[of 2 "7549747 / 2097152 + 7549747 / 8388608"] by (simp add: round_half_even_def)
  have s5: "fadd (9 / 2) (7549747 / 8388608) = 11324621 / 2097152"
    unfolding fadd_def using f32_eval[of 2 "9 / 2 + 7549747 / 8388608"] by (simp add: round_half_even_def)
  have s6: "fadd (11324621 / 2097152) (7549747 / 8388608) = 6606029 / 1048576"
    unfolding fadd_def using f32_eval[of 2 "11324621 / 2097152 + 7549747 / 8388608"] by (simp add: round_half_even_def)
  have s7: "fadd (6606029 / 1048576) (7549747 / 8388608) = 15099495 / 2097152"
    unfolding fadd_def using f32_eval[of 2 "6606029 / 1048576 + 7549747 / 8388608"] by (simp add: round_half_even_def)
  have s8: "fadd (15099495 / 2097152) (7549747 / 8388608) = 4246733 / 524288"
    unfolding fadd_def using f32_eval[of 3 "15099495 / 2097152 + 7549747 / 8388608"] by (simp add: round_half_even_def)
  have s9: "fadd (4246733 / 524288) (7549747 / 8388608) = 9"
    unfolding fadd_def using f32_eval[of 3 "4246733 / 524288 + 7549747 / 8388608"] by (simp add: round_half_even_def)
  have s10: "fadd (9) (7549747 / 8388608) = 5190451 / 524288"
    unfolding fadd_def using f32_eval[of 3 "9 + 7549747 / 8388608"] by (simp add: round_half_even_def)
  have s11: "fadd (5190451 / 524288) (7549747 / 8388608) = 2831155 / 262144"
    unfolding fadd_def using f32_eval[of 3 "5190451 / 524288 + 7549747 / 8388608"] by (simp add: round_half_even_def)
  have s12: "fadd (2831155 / 262144) (7549747 / 8388608) = 6134169 / 524288"
    unfolding fadd_def using f32_eval[of 3 "2831155 / 262144 + 7549747 / 8388608"] by (simp add: round_half_even_def)
  have s13: "fadd (6134169 / 524288) (7549747 / 8388608) = 1651507 / 131072"
    unfolding fadd_def using f32_eval[of 3 "6134169 / 524288 + 7549747 / 8388608"] by (simp add: round_half_even_def)
  have s14: "fadd (1651507 / 131072) (7549747 / 8388608) = 7077887 / 524288"
    unfolding fadd_def using f32_eval[of 3 "1651507 / 131072 + 7549747 / 8388608"] by (simp add: round_half_even_def)
  have s15: "fadd (7077887 / 524288) (7549747 / 8388608) = 3774873 / 262144"
    unfolding fadd_def using f32_eval[of 3 "7077887 / 524288 + 7549747 / 8388608"] by (simp add: round_half_even_def)
  show "foldl fadd (7549747 / 8388608) (replicate 15 (7549747 / 8388608)) = 3774873 / 262144"
    unfolding replicate_15 foldl_Cons foldl_Nil s1 s2 s3 s4 s5 s6 s7 s8 s9 s10 s11 s12 s13 s14 s15 ..
  show "f32 (3774873 / 262144) = 3774873 / 262144"
    using f32_eval[of 3 "3774873 / 262144"] by (simp add: round_half_even_def)
qed

lemma sum16_8_1:
  "foldl fadd (4246733 / 524288) (replicate 15 (4246733 / 524288)) = 8493465 / 65536"
  "f32 (8493465 / 65536) = 8493465 / 65536"
proof -
  have s1: "fadd (4246733 / 524288) (4246733 / 524288) = 4246733 / 262144"
    unfolding fadd_def using f32_eval[of 4 "4246733 / 524288 + 4246733 / 524288"] by (simp add: round_half_even_def)
  have s2: "fadd (4246733 / 262144) (4246733 / 524288) = 12740199 / 524288"
    unfolding fadd_def using f32_eval[of 4 "4246733 / 262144 + 4246733 / 524288"] by (simp add: round_half_even_def)
  have s3: "fadd (12740199 / 524288) (4246733 / 524288) = 4246733 / 131072"
    unfolding fadd_def using f32_eval[of 5 "12740199 / 524288 + 4246733 / 524288"] by (simp add: round_half_even_def)
  have s4: "fadd (4246733 / 131072) (4246733 / 524288) = 81 / 2"
    unfolding fadd_def using f32_eval[of 5 "4246733 / 131072 + 4246733 / 524288"] by (simp add: round_half_even_def)
  have s5: "fadd (81 / 2) (4246733 / 524288) = 6370099 / 131072"
    unfolding fadd_def using f32_eval[of 5 "81 / 2 + 4246733 / 524288"] by (simp add: round_half_even_def)
  have s6: "fadd (6370099 / 131072) (4246733 / 524288) = 3715891 / 65536"
    unfolding fadd_def using f32_eval[of 5 "6370099 / 131072 + 4246733 / 524288"] by (simp add: round_half_even_def)
  have s7: "fadd (3715891 / 65536) (4246733 / 524288) = 8493465 / 131072"
    unfolding fadd_def using f32_eval[of 6 "3715891 / 65536 + 4246733 / 524288"] by (simp add: round_half_even_def)
  have s8: "fadd (8493465 / 131072) (4246733 / 524288) = 2388787 / 32768"
    unfolding fadd_def using f32_eval[of 6 "8493465 / 131072 + 4246733 / 524288"] by (simp add: round_half_even_def)
  have s9: "fadd (2388787 / 32768) (4246733 / 524288) = 10616831 / 131072"
    unfolding fadd_def using f32_eval[of 6 "2388787 / 32768 + 4246733 / 524288"] by (simp add: round_half_even_def)
  have s10: "fadd (10616831 / 131072) (4246733 / 524288) = 5839257 / 65536"
    unfolding fadd_def using f32_eval[of 6 "10616831 / 131072 + 4246733 / 524288"] by (simp add: round_half_even_def)
  have s11: "fadd (5839257 / 65536) (4246733 / 524288) = 12740197 / 131072"
    unfolding fadd_def using f32_eval[of 6 "5839257 / 65536 + 4246733 / 524288"] by (simp add: round_half_even_def)
  have s12: "fadd (12740197 / 131072) (4246733 / 524288) = 1725235 / 16384"
    unfolding fadd_def using f32_eval[of 6 "12740197 / 131072 + 4246733 / 524288"] by (simp add: round_half_even_def)
  have s13: "fadd (1725235 / 16384) (4246733 / 524288) = 14863563 / 131072"
    unfolding fadd_def using f32_eval[of 6 "1725235 / 16384 + 4246733 / 524288"] by (simp add: round_half_even_def)
  have s14: "fadd (14863563 / 131072) (4246733 / 524288) = 7962623 / 65536"
    unfolding fadd_def using f32_eval[of 6 "14863563 / 131072 + 4246733 / 524288"] by (simp add: round_half_even_def)
  have s15: "fadd (7962623 / 65536) (4246733 / 524288) = 8493465 / 65536"
    unfolding fadd_def using f32_eval[of 7 "7962623 / 65536 + 4246733 / 524288"] by (simp add: round_half_even_def)
  show "foldl fadd (4246733 / 524288) (replicate 15 (4246733 / 524288)) = 8493465 / 65536"
    unfolding replicate_15 foldl_Cons foldl_Nil s1 s2 s3 s4 s5 s6 s7 s8 s9 s10 s11 s12 s13 s14 s15 ..
  show "f32 (8493465 / 65536) = 8493465 / 65536"
    using f32_eval[of 7 "8493465 / 65536"] by (simp add: round_half_even_def)
qed

lemma sum16_1000_1:
  "foldl fadd (8192819 / 8192) (replicate 15 (8192819 / 8192)) = 4096409 / 256"
  "f32 (4096409 / 256) = 4096409 / 256"
proof -
  have s1: "fadd (8192819 / 8192) (8192819 / 8192) = 8192819 / 4096"
    unfolding fadd_def using f32_eval[of 10 "8192819 / 8192 + 8192819 / 8192"] by (simp add: round_half_even_def)
  have s2: "fadd (8192819 / 4096) (8192819 / 8192) = 3072307 / 1024"
    unfolding fadd_def using f32_eval[of 11 "8192819 / 4096 + 8192819 / 8192"] by (simp add: round_half_even_def)
  have s3: "fadd (3072307 / 1024) (8192819 / 8192) = 8192819 / 2048"
    unfolding fadd_def using f32_eval[of 11 "3072307 / 1024 + 8192819 / 8192"] by (simp add: round_half_even_def)
  have s4: "fadd (8192819 / 2048) (8192819 / 8192) = 10001 / 2"
    unfolding fadd_def using f32_eval[of 12 "8192819 / 2048 + 8192819 / 8192"] by (simp add: round_half_even_def)
  have s5: "fadd (10001 / 2) (8192819 / 8192) = 12289229 / 2048"
    unfolding fadd_def using f32_eval[of 12 "10001 / 2 + 8192819 / 8192"] by (simp add: round_half_even_def)
  have s6: "fadd (12289229 / 2048) (8192819 / 8192) = 7168717 / 1024"
    unfolding fadd_def using f32_eval[of 12 "12289229 / 2048 + 8192819 / 8192"] by (simp add: round_half_even_def)
  have s7: "fadd (7168717 / 1024) (8192819 / 8192) = 16385639 / 2048"
    unfolding fadd_def using f32_eval[of 12 "7168717 / 1024 + 8192819 / 8192"] by (simp add: round_half_even_def)
  have s8: "fadd (16385639 / 2048) (8192819 / 8192) = 4608461 / 512"
    unfolding fadd_def using f32_eval[of 13 "16385639 / 2048 + 8192819 / 8192"] by (simp add: round_half_even_def)
  have s9: "fadd (4608461 / 512) (8192819 / 8192) = 10001"
    unfolding fadd_def using f32_eval[of 13 "4608461 / 512 + 8192819 / 8192"] by (simp add: round_half_even_def)
  have s10: "fadd (10001) (8192819 / 8192) = 5632563 / 512"
    unfolding fadd_def using f32_eval[of 13 "10001 + 8192819 / 8192"] by (simp add: round_half_even_def)
  have s11: "fadd (5632563 / 512) (8192819 / 8192) = 3072307 / 256"
    unfolding fadd_def using f32_eval[of 13 "5632563 / 512 + 8192819 / 8192"] by (simp add: round_half_even_def)
  have s12: "fadd (3072307 / 256) (8192819 / 8192) = 6656665 / 512"
    unfolding fadd_def using f32_eval[of 13 "3072307 / 256 + 8192819 / 8192"] by (simp add: round_half_even_def)
  have s13: "fadd (6656665 / 512) (8192819 / 8192) = 1792179 / 128"
    unfolding fadd_def using f32_eval[of 13 "6656665 / 512 + 8192819 / 8192"] by (simp add: round_half_even_def)
  have s14: "fadd (1792179 / 128) (8192819 / 8192) = 7680767 / 512"
    unfolding fadd_def using f32_eval[of 13 "1792179 / 128 + 8192819 / 8192"] by (simp add: round_half_even_def)
  have s15: "fadd (7680767 / 512) (8192819 / 8192) = 4096409 / 256"
    unfolding fadd_def using f32_eval[of 13 "7680767 / 512 + 8192819 / 8192"] by (simp add: round_half_even_def)
  show "foldl fadd (8192819 / 8192) (replicate 15 (8192819 / 8192)) = 4096409 / 256"
    unfolding replicate_15 foldl_Cons foldl_Nil s1 s2 s3 s4 s5 s6 s7 s8 s9 s10 s11 s12 s13 s14 s15 ..
  show "f32 (4096409 / 256) = 4096409 / 256"
    using f32_eval[of 13 "4096409 / 256"] by (simp add: round_half_even_def)
qed

section \<open>Calls on a constant model output\<close>

lemma constant_field_nonempty:
  "concat (map (map fst) (replicate 128 (replicate 128 (c, u)))) \<noteq> []"
  by (simp add: concat_eq_Nil_conv)

lemma constant_field_extrema:
  "np_max (replicate 128 (replicate 128 c)) = c"
  "np_min (replicate 128 (replicate 128 c)) = c"
proof -
  have "set (concat (replicate 128 (replicate 128 c))) = {c}" by auto
  then show "np_max (replicate 128 (replicate 128 c)) = c"
    "np_min (replicate 128 (replicate 128 c)) = c"
    by (simp_all add: np_max_def np_min_def)
qed

lemma normalized_mean_float32_constant:
  assumes "f32 S = S" and "foldl fadd c (replicate 15 c) = S"
  shows "normalized_mean np_mean_float32 (replicate 128 (replicate 128 c)) = (S / 16 - c) * 10 ^ 7"
  unfolding normalized_mean_def Let_def constant_field_extrema
    np_mean_float32_constant[OF assms]
  by simp

lemma activity_half:
  "normalized_mean np_mean_float32 (replicate 128 (replicate 128 (1 / 2))) = 0"
  unfolding normalized_mean_float32_constant[OF sum16_half(2) sum16_half(1)] by simp

lemma activity_0_9:
  "normalized_mean np_mean_float32 (replicate 128 (replicate 128 (7549747 / 8388608))) =
     - (78125 / 65536)"
  unfolding normalized_mean_float32_constant[OF sum16_0_9(2) sum16_0_9(1)] by simp

lemma activity_8_1:
  "normalized_mean np_mean_float32 (replicate 128 (replicate 128 (4246733 / 524288))) =
     - (78125 / 8192)"
  unfolding normalized_mean_float32_constant[OF sum16_8_1(2) sum16_8_1(1)] by simp

lemma activity_1000_1:
  "normalized_mean np_mean_float32 (replicate 128 (replicate 128 (8192819 / 8192))) =
     - (78125 / 64)"
  unfolding normalized_mean_float32_constant[OF sum16_1000_1(2) sum16_1000_1(1)] by simp

lemma exp_in_range_bounded: "- 100 \<le> nm \<Longrightarrow> nm \<le> 100 \<Longrightarrow> exp_in_range nm"
  unfolding exp_in_range_def by (intro conjI exp_below_overflow) simp_all

lemma exp_in_range_samples:
  "exp_in_range 0" "exp_in_range (- (78125 / 65536))" "exp_in_range (- (78125 / 8192))"
  by (rule exp_in_range_bounded; simp)+

lemma parse_summer_afternoon:
  "strptime_ymd_hm (''20250615'' @ '' '' @ time_or_default (Some ''14:00'')) ''%Y%m%d %H:%M'' =
     Inr \<lparr>dt_year = 2025, dt_month = 6, dt_day = 15, dt_hour = 14, dt_minute = 0\<rparr>"
  by code_simp

lemma parse_summer_midnight:
  "strptime_ymd_hm (''20250615'' @ '' '' @ time_or_default None) ''%Y%m%d %H:%M'' =
     Inr \<lparr>dt_year = 2025, dt_month = 6, dt_day = 15, dt_hour = 0, dt_minute = 0\<rparr>"
  by code_simp

lemma parse_dashed_date:
  "strptime_ymd_hm (''2025-06-15'' @ '' '' @ time_or_default (Some ''14:00'')) ''%Y%m%d %H:%M'' =
     Inl (ValueError (''time data '' @ [CHR 0x27] @ ''2025-06-15 14:00'' @ [CHR 0x27] @
            '' does not match format '' @ [CHR 0x27] @ ''%Y%m%d %H:%M'' @ [CHR 0x27]))"
  by code_simp

lemma constant_model_call:
  assumes "strptime_ymd_hm (date_str @ '' '' @ time_or_default time_str) ''%Y%m%d %H:%M'' = Inr dt"
    and "exp_in_range (normalized_mean np_mean_float32 (replicate 128 (replicate 128 c)))"
  shows "fst (predict strptime_ymd_hm (constant_model c u) np_mean_float32 uniform g
                date_str lat lon time_str) =
     Success (let v = fst (synthesized np_mean_float32 uniform g lat lon dt
                        (replicate 128 (replicate 128 (c, u))));
                     urban = (determine_region_type lat lon = URBAN) in
                 \<lparr>BME688 =
                    \<lparr>bme_temperature = bme_temperature (BME688 v) - elevation_factor lat lon * 2,
                     bme_humidity = bme_humidity (BME688 v),
                     bme_pressure = bme_pressure (BME688 v) * (1 - elevation_factor lat lon * 0.00012),
                     bme_gas_resistance = bme_gas_resistance (BME688 v)\<rparr>,
                  MCP9808_temperature = MCP9808_temperature v - elevation_factor lat lon * 2,
                  CO2_value = CO2_value v * (if urban then 1.1 else 1),
                  VOC_value = VOC_value v * (if urban then 1.2 else 1),
                  PM1_0_value = PM1_0_value v * (if urban then 1.3 else 1),
                  PM2_5_value = PM2_5_value v * (if urban then 1.3 else 1),
                  PM10_value = PM10_value v * (if urban then 1.3 else 1),
                  metadata =
                    \<lparr>latitude = lat, longitude = lon, date = date_str,
                     time = time_or_default time_str,
                     meta_season = season (datetime_to_features dt),
                     meta_time_of_day = time_of_day (datetime_to_features dt),
                     normalized_activity = normalized_mean np_mean_float32
                        (map (map fst) (replicate 128 (replicate 128 (c, u)))),
                     uncertainty = np_mean_float32
                        (map (map snd) (replicate 128 (replicate 128 (c, u))))\<rparr>\<rparr>)"
proof -
  have m: "constant_model c u [generate_synthetic_patch lat lon dt]
           = Inr (replicate 128 (replicate 128 (c, u)))"
    by (simp add: constant_model_def)
  have e: "exp_in_range (normalized_mean np_mean_float32
             (map (map fst) (replicate 128 (replicate 128 (c, u)))))"
    using assms(2) by simp
  show ?thesis
    by (rule predict_Success_eq[where strptime = strptime_ymd_hm and model = "constant_model c u"
        and np_mean = np_mean_float32, OF assms(1) m constant_field_nonempty e])
qed

lemma sample_success:
  "is_Success (fst (predict strptime_ymd_hm (constant_model (1 / 2) u) np_mean_float32 uniform g
     ''20250615'' lat lon (Some ''14:00'')))"
  unfolding constant_model_call[OF parse_summer_afternoon, of "1 / 2", unfolded activity_half,
      OF exp_in_range_samples(1)]
  by simp

section \<open>Particulate values\<close>

lemma particulates_nonneg_synth:
  "0 \<le> PM1_0_value (fst (enhanced_values uniform nm adj g))"
  "0 \<le> PM2_5_value (fst (enhanced_values uniform nm adj g))"
  "0 \<le> PM10_value (fst (enhanced_values uniform nm adj g))"
  by (simp_all add: enhanced_values_def Let_def split_beta)

text \<open>
  C6. In the result of every successful call, whatever the draws, PM1.0, PM2.5 and PM10 are
  not negative: each is floored at 0 after its noise and then multiplied by the calibration
  factor 1.3 or 1.
\<close>

theorem particulates_never_negative:
  assumes "fst (predict strptime model np_mean uniform g date_str lat lon time_str) = Success r"
  shows "0 \<le> PM1_0_value r \<and> 0 \<le> PM2_5_value r \<and> 0 \<le> PM10_value r"
proof -
  from predict_Success_fields[OF assms] obtain dt pred where
    r: "PM1_0_value r = PM1_0_value (fst (synthesized np_mean uniform g lat lon dt pred))
           * (if determine_region_type lat lon = URBAN then 1.3 else 1)"
       "PM2_5_value r = PM2_5_value (fst (synthesized np_mean uniform g lat lon dt pred))
           * (if determine_region_type lat lon = URBAN then 1.3 else 1)"
       "PM10_value r = PM10_value (fst (synthesized np_mean uniform g lat lon dt pred))
           * (if determine_region_type lat lon = URBAN then 1.3 else 1)"
    by (auto simp: Let_def)
  let ?v = "fst (synthesized np_mean uniform g lat lon dt pred)"
  have "0 \<le> PM1_0_value ?v" "0 \<le> PM2_5_value ?v" "0 \<le> PM10_value ?v"
    unfolding synthesized_def by (rule particulates_nonneg_synth)+
  then show ?thesis unfolding r by simp
qed

text \<open>C6 at a call for 15 June 2025, 14:00, at latitude 40.7, longitude -74.0.\<close>

theorem particulates_never_negative_witness:
  "is_Success (fst (predict strptime_ymd_hm (constant_model (1/2) (1/10)) np_mean_float32
       random_uniform (constant_stream (1/4)) ''20250615'' 40.7 (-74.0) (Some ''14:00'')))
   \<and> 0 \<le> PM1_0_value (the_results (fst (predict strptime_ymd_hm (constant_model (1/2) (1/10))
       np_mean_float32 random_uniform (constant_stream (1/4)) ''20250615'' 40.7 (-74.0)
       (Some ''14:00''))))
   \<and> 0 \<le> PM2_5_value (the_results (fst (predict strptime_ymd_hm (constant_model (1/2) (1/10))
       np_mean_float32 random_uniform (constant_stream (1/4)) ''20250615'' 40.7 (-74.0)
       (Some ''14:00''))))
   \<and> 0 \<le> PM10_value (the_results (fst (predict strptime_ymd_hm (constant_model (1/2) (1/10))
       np_mean_float32 random_uniform (constant_stream (1/4)) ''20250615'' 40.7 (-74.0)
       (Some ''14:00''))))"
  using particulates_never_negative[of strptime_ymd_hm "constant_model (1/2) (1/10)"
      np_mean_float32 random_uniform
      "constant_stream (1/4)" "''20250615''" "40.7" "-74.0" "Some ''14:00''"
      "the_results (fst (predict strptime_ymd_hm (constant_model (1/2) (1/10)) np_mean_float32
       random_uniform (constant_stream (1/4)) ''20250615'' 40.7 (-74.0) (Some ''14:00'')))"]
    sample_success[of "1/10" random_uniform "constant_stream (1/4)" "40.7" "-74.0"]
  by simp

section \<open>The activity signal\<close>

text \<open>
  C4. The claim is that the activity \<open>(mean - min) / (max - min + 10\<^sup>-\<^sup>7)\<close> lies in
  \<open>[0, 1]\<close> for every finite model output, and is 0 for a constant one. The code takes the
  mean with \<^verbatim>\<open>np.mean\<close> on an array of 32-bit floats. When the model output is 0.9 (as a
  32-bit float, \<open>7549747 / 2\<^sup>2\<^sup>3\<close>) at each of its \<open>128 \<times> 128\<close> pixels, the sum of 16 copies
  is rounded down, the mean that comes back is \<open>2\<^sup>-\<^sup>2\<^sup>3\<close> below the minimum (which is
  more than the \<open>10\<^sup>-\<^sup>7\<close> of the denominator) and the activity is
  \<open>- 78125 / 65536\<close>, about \<open>-1.19\<close>: negative, and not 0. The call for 15 June 2025, 14:00
  at latitude 40.7, longitude -74.0 succeeds on that output and reports this value as
  \<^verbatim>\<open>normalized_activity\<close>.
\<close>

theorem constant_field_activity_negative:
  "np_mean_float32 (replicate 128 (replicate 128 (7549747 / 8388608))) =
      7549747 / 8388608 - 1 / 2 ^ 23
   \<and> normalized_mean np_mean_float32 (replicate 128 (replicate 128 (7549747 / 8388608))) =
      - (78125 / 65536)
   \<and> normalized_mean np_mean_float32 (replicate 128 (replicate 128 (7549747 / 8388608))) < 0
   \<and> is_Success (fst (predict strptime_ymd_hm (constant_model (7549747 / 8388608) (1/10))
        np_mean_float32 random_uniform (constant_stream (1/4)) ''20250615'' 40.7 (-74.0)
        (Some ''14:00'')))
   \<and> normalized_activity (metadata (the_results (fst (predict strptime_ymd_hm
        (constant_model (7549747 / 8388608) (1/10)) np_mean_float32 random_uniform
        (constant_stream (1/4)) ''20250615'' 40.7 (-74.0) (Some ''14:00''))))) =
      - (78125 / 65536)"
proof -
  have m: "np_mean_float32 (replicate 128 (replicate 128 (7549747 / 8388608))) =
      7549747 / 8388608 - 1 / 2 ^ 23"
    unfolding np_mean_float32_constant[OF sum16_0_9(2) sum16_0_9(1)] by simp
  note call = constant_model_call[OF parse_summer_afternoon, of "7549747 / 8388608",
      unfolded activity_0_9, OF exp_in_range_samples(2)]
  have s: "is_Success (fst (predict strptime_ymd_hm (constant_model (7549747 / 8388608) (1/10))
        np_mean_float32 random_uniform (constant_stream (1/4)) ''20250615'' 40.7 (-74.0)
        (Some ''14:00'')))"
    unfolding call by simp
  have a: "normalized_activity (metadata (the_results (fst (predict strptime_ymd_hm
        (constant_model (7549747 / 8388608) (1/10)) np_mean_float32 random_uniform
        (constant_stream (1/4)) ''20250615'' 40.7 (-74.0) (Some ''14:00''))))) =
      - (78125 / 65536)"
    unfolding call using activity_0_9 by (simp add: Let_def)
  from m s a activity_0_9 show ?thesis by simp
qed

section \<open>Humidity and pressure\<close>

lemma elevation_factor_cases:
  "elevation_factor lat lon \<in> {1/2, 24/25, 101/100, 49/50}"
  by (simp add: elevation_factor_def get_elevation_def Let_def)

lemma random_noise_bounded:
  assumes "0 \<le> g 0" "g 0 \<le> 1" "0 \<le> am"
  shows "\<bar>fst (add_sensor_noise random_uniform v rs am g) - v\<bar> \<le> max (\<bar>v\<bar> * rs) am"
proof -
  let ?s = "max (\<bar>v\<bar> * rs) am"
  have e: "fst (add_sensor_noise random_uniform v rs am g) - v = - ?s + (?s - (- ?s)) * g 0"
    by (simp add: add_sensor_noise_def random_uniform_def Let_def)
  have s: "0 \<le> ?s" using assms(3) by simp
  have "?s * g 0 \<le> ?s * 1" "0 \<le> ?s * g 0"
    using s assms by (simp_all add: mult_left_le)
  then show ?thesis unfolding e by (simp add: algebra_simps abs_le_iff)
qed

lemma random_state_after:
  "snd (add_sensor_noise random_uniform v rs am g) = (\<lambda>n. g (Suc n))"
  by (simp add: add_sensor_noise_def random_uniform_def Let_def)

lemma synth_humidity_random:
  "bme_humidity (BME688 (fst (enhanced_values random_uniform nm adj g))) =
     fst (add_sensor_noise random_uniform (min 100 (max 10 (humidity adj + nm * 50))) 0.005 0.1
            (\<lambda>n. g (Suc n)))"
  by (simp add: enhanced_values_def Let_def split_beta random_state_after)

lemma synth_pressure_random:
  "bme_pressure (BME688 (fst (enhanced_values random_uniform nm adj g))) =
     fst (add_sensor_noise random_uniform (max 950 (min 1050 (pressure adj - nm * 5))) 0.001 0.1
            (\<lambda>n. g (Suc (Suc n))))"
  by (simp add: enhanced_values_def Let_def split_beta random_state_after)

lemma humidity_noise_range:
  fixes h h' :: real
  assumes "\<bar>h' - h\<bar> \<le> max (\<bar>h\<bar> * 0.005) 0.1" and "10 \<le> h" "h \<le> 100"
  shows "9.9 \<le> h' \<and> h' \<le> 100.5"
proof -
  have a: "\<bar>h\<bar> = h" using assms(2) by simp
  have "max (h * (5 / 1000)) (1 / 10) \<le> 1 / 2" using assms(3) by simp
  moreover have "max (h * (5 / 1000)) (1 / 10) \<le> h - 99 / 10" using assms(2) by simp
  moreover have "\<bar>h' - h\<bar> \<le> max (h * (5 / 1000)) (1 / 10)" using assms(1) unfolding a by simp
  ultimately have "99 / 10 \<le> h' \<and> h' \<le> 1005 / 10" by linarith
  then show ?thesis by simp
qed

lemma pressure_noise_range:
  fixes p p' f :: real
  assumes "\<bar>p' - p\<bar> \<le> max (\<bar>p\<bar> * 0.001) 0.1" and "950 \<le> p" "p \<le> 1050" 
    and "f \<in> {1/2, 24/25, 101/100, 49/50}"
  shows "948.9 \<le> p' * (1 - f * 0.00012) \<and> p' * (1 - f * 0.00012) \<le> 1051"
proof -
  have a: "\<bar>p\<bar> = p" using assms(2) by simp
  have m: "max (p * (1 / 1000)) (1 / 10) = p * (1 / 1000)" using assms(2) by simp
  have "\<bar>p' - p\<bar> \<le> max (p * (1 / 1000)) (1 / 10)" using assms(1) unfolding a by simp
  with assms(2,3) have b: "94905 / 100 \<le> p'" "p' \<le> 105105 / 100"
    unfolding m by linarith+
  from assms(4) consider "f = 1/2" | "f = 24/25" | "f = 101/100" | "f = 49/50" by auto
  then show ?thesis
  proof cases
    case 1 show ?thesis unfolding 1 using b by simp
  next
    case 2 show ?thesis unfolding 2 using b by simp
  next
    case 3 show ?thesis unfolding 3 using b by simp
  next
    case 4 show ?thesis unfolding 4 using b by simp
  qed
qed

text \<open>
  C2, as amended. The claim is that the final humidity lies in \<open>[10, 100]\<close> and the final
  pressure in \<open>[950, 1050]\<close>. The code clamps both to these ranges first and then adds the
  noise (and, for the pressure, multiplies by \<open>1 - 0.00012 \<cdot> elevation_factor\<close>), so the
  final values can leave the ranges on either side. What holds for every successful call
  whose draws \<^verbatim>\<open>random()\<close> are in \<open>[0, 1)\<close>: there are a humidity \<open>h\<close> in \<open>[10, 100]\<close> and a
  pressure \<open>p\<close> in \<open>[950, 1050]\<close>, the clamped values, such that the final humidity is \<open>h\<close>
  with the noise of the second draw, at most \<open>max (0.005 \<cdot> h) 0.1\<close> away from \<open>h\<close>, and the
  final pressure is \<open>p\<close> with the noise of the third draw, at most \<open>0.001 \<cdot> p\<close>, times
  \<open>1 - 0.00012 \<cdot> elevation_factor\<close>; hence the final humidity lies in \<open>[9.9, 100.5]\<close> and
  the final pressure in \<open>[948.9, 1051]\<close>.
\<close>

theorem humidity_pressure_final_range:
  assumes "fst (predict strptime model np_mean random_uniform g date_str lat lon time_str) = Success r"
    and "\<forall>i. 0 \<le> g i \<and> g i < 1"
  shows "\<exists>dt h p.
           strptime (date_str @ '' '' @ time_or_default time_str) ''%Y%m%d %H:%M'' = Inr dt
         \<and> h = min 100 (max 10 (humidity (apply_temporal_adjustments
                   (regional_base_values (determine_region_type lat lon)) dt
                   (determine_region_type lat lon)) + normalized_activity (metadata r) * 50))
         \<and> p = max 950 (min 1050 (pressure (apply_temporal_adjustments
                   (regional_base_values (determine_region_type lat lon)) dt
                   (determine_region_type lat lon)) - normalized_activity (metadata r) * 5))
         \<and> 10 \<le> h \<and> h \<le> 100 \<and> 950 \<le> p \<and> p \<le> 1050
         \<and> bme_humidity (BME688 r) =
              fst (add_sensor_noise random_uniform h 0.005 0.1 (\<lambda>n. g (Suc n)))
         \<and> \<bar>bme_humidity (BME688 r) - h\<bar> \<le> max (h * 0.005) 0.1
         \<and> bme_pressure (BME688 r) =
              fst (add_sensor_noise random_uniform p 0.001 0.1 (\<lambda>n. g (Suc (Suc n))))
                * (1 - elevation_factor lat lon * 0.00012)
         \<and> \<bar>fst (add_sensor_noise random_uniform p 0.001 0.1 (\<lambda>n. g (Suc (Suc n)))) - p\<bar>
              \<le> p * 0.001
         \<and> 9.9 \<le> bme_humidity (BME688 r) \<and> bme_humidity (BME688 r) \<le> 100.5
         \<and> 948.9 \<le> bme_pressure (BME688 r) \<and> bme_pressure (BME688 r) \<le> 1051"
proof -
  from predict_Success_fields[OF assms(1)] obtain dt pred where
    dt: "strptime (date_str @ '' '' @ time_or_default time_str) ''%Y%m%d %H:%M'' = Inr dt"
    and c: "bme_humidity (BME688 r) =
              bme_humidity (BME688 (fst (synthesized np_mean random_uniform g lat lon dt pred)))"
       "bme_pressure (BME688 r) =
              bme_pressure (BME688 (fst (synthesized np_mean random_uniform g lat lon dt pred)))
           * (1 - elevation_factor lat lon * 0.00012)"
       "normalized_activity (metadata r) = normalized_mean np_mean (map (map fst) pred)"
    by (auto simp: Let_def)
  let ?nm = "normalized_mean np_mean (map (map fst) pred)"
  let ?adj = "apply_temporal_adjustments (regional_base_values (determine_region_type lat lon)) dt
          (determine_region_type lat lon)"
  let ?v = "fst (enhanced_values random_uniform ?nm ?adj g)"
  let ?h = "min 100 (max 10 (humidity ?adj + ?nm * 50))"
  let ?p = "max 950 (min 1050 (pressure ?adj - ?nm * 5))"
  let ?p' = "fst (add_sensor_noise random_uniform ?p 0.001 0.1 (\<lambda>n. g (Suc (Suc n))))"
  have sv: "fst (synthesized np_mean random_uniform g lat lon dt pred) = ?v"
    by (simp add: synthesized_def)
  have g1: "0 \<le> g (Suc 0)" "g (Suc 0) \<le> 1" "0 \<le> g (Suc (Suc 0))" "g (Suc (Suc 0)) \<le> 1"
    using assms(2) by (simp_all add: less_imp_le)
  have hr: "10 \<le> ?h" "?h \<le> 100" and pr: "950 \<le> ?p" "?p \<le> 1050" by simp_all
  have ha: "\<bar>?h\<bar> = ?h" using hr(1) by linarith
  have pa: "\<bar>?p\<bar> = ?p" using pr(1) by linarith
  have pm: "max (?p * 0.001) 0.1 = ?p * 0.001" using pr(1) by simp
  have hn: "\<bar>bme_humidity (BME688 ?v) - ?h\<bar> \<le> max (\<bar>?h\<bar> * 0.005) 0.1"
    unfolding synth_humidity_random by (rule random_noise_bounded) (simp_all add: g1)
  then have H: "9.9 \<le> bme_humidity (BME688 ?v) \<and> bme_humidity (BME688 ?v) \<le> 100.5"
    by (rule humidity_noise_range) simp_all
  have pn: "\<bar>?p' - ?p\<bar> \<le> max (\<bar>?p\<bar> * 0.001) 0.1"
    by (rule random_noise_bounded) (simp_all add: g1)
  then have P: "948.9 \<le> ?p' * (1 - elevation_factor lat lon * 0.00012)
      \<and> ?p' * (1 - elevation_factor lat lon * 0.00012) \<le> 1051"
    by (rule pressure_noise_range) (simp_all add: elevation_factor_cases[simplified])
  have hn': "\<bar>bme_humidity (BME688 ?v) - ?h\<bar> \<le> max (?h * 0.005) 0.1"
    using hn unfolding ha .
  have pn': "\<bar>?p' - ?p\<bar> \<le> ?p * 0.001"
    using pn unfolding pa pm .
  note na = c(3)[symmetric]
  let ?H = "min 100 (max 10 (humidity ?adj + normalized_activity (metadata r) * 50))"
  let ?P = "max 950 (min 1050 (pressure ?adj - normalized_activity (metadata r) * 5))"
  have 1: "10 \<le> ?H" "?H \<le> 100" "950 \<le> ?P" "?P \<le> 1050" by simp_all
  have 2: "bme_humidity (BME688 r) =
             fst (add_sensor_noise random_uniform ?H 0.005 0.1 (\<lambda>n. g (Suc n)))"
    unfolding c sv synth_humidity_random ..
  have 3: "\<bar>bme_humidity (BME688 r) - ?H\<bar> \<le> max (?H * 0.005) 0.1"
    using hn' unfolding c sv .
  have 4: "bme_pressure (BME688 r) =
             fst (add_sensor_noise random_uniform ?P 0.001 0.1 (\<lambda>n. g (Suc (Suc n))))
               * (1 - elevation_factor lat lon * 0.00012)"
    unfolding c sv synth_pressure_random ..
  have 5: "\<bar>fst (add_sensor_noise random_uniform ?P 0.001 0.1 (\<lambda>n. g (Suc (Suc n)))) - ?P\<bar>
             \<le> ?P * 0.001"
    using pn' unfolding c .
  have 6: "9.9 \<le> bme_humidity (BME688 r)" "bme_humidity (BME688 r) \<le> 100.5"
    using H unfolding c(1) sv by blast+
  have 7: "948.9 \<le> bme_pressure (BME688 r)" "bme_pressure (BME688 r) \<le> 1051"
    using P unfolding c(2) sv synth_pressure_random by blast+
  show ?thesis
    by (rule exI[of _ dt], rule exI[of _ ?H], rule exI[of _ ?P])
      (intro conjI dt refl 1 2 3 4 5 6 7)
qed

text \<open>The amended C2 at a call for 15 June 2025, 14:00, at latitude 40.7, longitude -74.0.\<close>

theorem humidity_pressure_final_range_witness:
  "(\<forall>i. 0 \<le> constant_stream (1/4) i \<and> constant_stream (1/4) i < 1)
   \<and> is_Success (fst (predict strptime_ymd_hm (constant_model (1/2) (1/10)) np_mean_float32
         random_uniform (constant_stream (1/4)) ''20250615'' 40.7 (-74.0) (Some ''14:00'')))
   \<and> 9.9 \<le> bme_humidity (BME688 (the_results (fst (predict strptime_ymd_hm
         (constant_model (1/2) (1/10)) np_mean_float32 random_uniform (constant_stream (1/4))
         ''20250615'' 40.7 (-74.0) (Some ''14:00'')))))
   \<and> bme_humidity (BME688 (the_results (fst (predict strptime_ymd_hm
         (constant_model (1/2) (1/10)) np_mean_float32 random_uniform (constant_stream (1/4))
         ''20250615'' 40.7 (-74.0) (Some ''14:00''))))) \<le> 100.5
   \<and> 948.9 \<le> bme_pressure (BME688 (the_results (fst (predict strptime_ymd_hm
         (constant_model (1/2) (1/10)) np_mean_float32 random_uniform (constant_stream (1/4))
         ''20250615'' 40.7 (-74.0) (Some ''14:00'')))))
   \<and> bme_pressure (BME688 (the_results (fst (predict strptime_ymd_hm
         (constant_model (1/2) (1/10)) np_mean_float32 random_uniform (constant_stream (1/4))
         ''20250615'' 40.7 (-74.0) (Some ''14:00''))))) \<le> 1051"
proof -
  have g: "\<forall>i. 0 \<le> constant_stream (1/4) i \<and> constant_stream (1/4) i < 1"
    by (simp add: constant_stream_def)
  have s: "fst (predict strptime_ymd_hm (constant_model (1/2) (1/10)) np_mean_float32 random_uniform
         (constant_stream (1/4)) ''20250615'' 40.7 (-74.0) (Some ''14:00'')) =
       Success (the_results (fst (predict strptime_ymd_hm (constant_model (1/2) (1/10))
         np_mean_float32 random_uniform (constant_stream (1/4)) ''20250615'' 40.7 (-74.0)
         (Some ''14:00''))))"
    using sample_success[of "1/10" random_uniform "constant_stream (1/4)" "40.7" "-74.0"]
    by simp
  from humidity_pressure_final_range[OF s g] g
    sample_success[of "1/10" random_uniform "constant_stream (1/4)" "40.7" "-74.0"]
  show ?thesis by blast
qed

text \<open>Four calls for 15 June 2025, evaluated.\<close>

lemma region_50_5: "determine_region_type 50 5 = FOREST_TEMPERATE"
  by (simp add: determine_region_type_def)

lemma region_40_m110: "determine_region_type 40 (-110) = MOUNTAIN"
  by (simp add: determine_region_type_def major_cities_def)

lemma region_27_0: "determine_region_type 27 0 = DESERT"
  by (simp add: determine_region_type_def)

lemma summer_midnight_labels:
  "season (datetime_to_features \<lparr>dt_year = 2025, dt_month = 6, dt_day = 15, dt_hour = 0, dt_minute = 0\<rparr>) = ''summer''"
  "time_of_day (datetime_to_features \<lparr>dt_year = 2025, dt_month = 6, dt_day = 15, dt_hour = 0, dt_minute = 0\<rparr>) = ''night''"
  by (simp_all add: datetime_to_features_def Let_def)

lemma adjusted_pressure: "pressure (apply_temporal_adjustments b dt r) = pressure b"
  by (simp add: apply_temporal_adjustments_def Let_def)

lemma adjusted_humidity_formula:
  "humidity (apply_temporal_adjustments b dt r) =
     min 100 (max 10 (humidity b +
       (dict_get (dict_get (dict_get seasonal_params (season (datetime_to_features dt)) Map.empty)
            ''humidity_shift'' Map.empty) r 0.0 +
        dict_get (dict_get (dict_get diurnal_params (time_of_day (datetime_to_features dt)) Map.empty)
            ''humidity_shift'' Map.empty) r 0.0)))"
  by (simp add: apply_temporal_adjustments_def Let_def)

lemma forest_summer_night_humidity:
  "humidity (apply_temporal_adjustments (regional_base_values FOREST_TEMPERATE)
     \<lparr>dt_year = 2025, dt_month = 6, dt_day = 15, dt_hour = 0, dt_minute = 0\<rparr> FOREST_TEMPERATE) = 100"
  unfolding adjusted_humidity_formula summer_midnight_labels
  by (simp add: dict_get_def seasonal_params_def diurnal_params_def regional_base_values_def)

lemma desert_summer_afternoon_humidity:
  "humidity (apply_temporal_adjustments (regional_base_values DESERT)
     \<lparr>dt_year = 2025, dt_month = 6, dt_day = 15, dt_hour = 14, dt_minute = 0\<rparr> DESERT) = 10"
  unfolding adjusted_humidity_formula summer_afternoon_labels
  by (simp add: dict_get_def seasonal_params_def diurnal_params_def regional_base_values_def)

lemma elevation_factor_mountain: "elevation_factor 40 (-110) = 1/2"
  by (simp add: elevation_factor_def get_elevation_def region_40_m110)

lemma elevation_factor_forest: "elevation_factor 50 5 = 49/50"
  by (simp add: elevation_factor_def get_elevation_def region_50_5)

lemma constant_call_humidity:
  assumes "strptime_ymd_hm (date_str @ '' '' @ time_or_default time_str) ''%Y%m%d %H:%M'' = Inr dt"
    and "normalized_mean np_mean_float32 (replicate 128 (replicate 128 c)) = nm"
    and "exp_in_range nm"
  shows "bme_humidity (BME688 (the_results (fst (predict strptime_ymd_hm (constant_model c u)
       np_mean_float32 random_uniform g date_str lat lon time_str)))) =
   fst (add_sensor_noise random_uniform
     (min 100 (max 10 (humidity (apply_temporal_adjustments
        (regional_base_values (determine_region_type lat lon)) dt
        (determine_region_type lat lon)) + nm * 50))) 0.005 0.1 (\<lambda>n. g (Suc n)))"
  unfolding constant_model_call[OF assms(1), of c, unfolded assms(2), OF assms(3)]
  using assms(2) by (simp add: Let_def synthesized_def synth_humidity_random)

lemma constant_call_pressure:
  assumes "strptime_ymd_hm (date_str @ '' '' @ time_or_default time_str) ''%Y%m%d %H:%M'' = Inr dt"
    and "normalized_mean np_mean_float32 (replicate 128 (replicate 128 c)) = nm"
    and "exp_in_range nm"
  shows "bme_pressure (BME688 (the_results (fst (predict strptime_ymd_hm (constant_model c u)
       np_mean_float32 random_uniform g date_str lat lon time_str)))) =
   fst (add_sensor_noise random_uniform
     (max 950 (min 1050 (pressure (regional_base_values (determine_region_type lat lon)) - nm * 5)))
        0.001 0.1 (\<lambda>n. g (Suc (Suc n)))) * (1 - elevation_factor lat lon * 0.00012)"
  unfolding constant_model_call[OF assms(1), of c, unfolded assms(2), OF assms(3)]
  using assms(2) by (simp add: Let_def synthesized_def synth_pressure_random adjusted_pressure)

lemma constant_call_succeeds:
  assumes "strptime_ymd_hm (date_str @ '' '' @ time_or_default time_str) ''%Y%m%d %H:%M'' = Inr dt"
    and "normalized_mean np_mean_float32 (replicate 128 (replicate 128 c)) = nm"
    and "exp_in_range nm"
  shows "is_Success (fst (predict strptime_ymd_hm (constant_model c u)
       np_mean_float32 uniform g date_str lat lon time_str))"
  unfolding constant_model_call[OF assms(1), of c, unfolded assms(2), OF assms(3)]
  by simp

text \<open>
  C2 as stated fails on each of its four bounds. On 15 June 2025, with a model output that
  is the same at each pixel:
  \<^item> at midnight at latitude 50, longitude 5 (temperate forest, adjusted humidity 100), with
    the output \<open>1/2\<close> (activity 0), a draw \<^verbatim>\<open>random() = 0.9\<close> gives the humidity 100.4;
  \<^item> at 14:00 at latitude 27, longitude 0 (desert, adjusted humidity 10), with the output
    \<open>1/2\<close>, a draw \<^verbatim>\<open>random() = 0\<close> gives the humidity 9.9;
  \<^item> at midnight at latitude 40, longitude -110 (mountain, baseline pressure 900 clamped to
    950), with the output \<open>1/2\<close>, draws of \<open>0.5\<close>, that is no noise at all, give the pressure
    \<open>950 \<cdot> 0.99994 = 949.943\<close>;
  \<^item> at midnight at latitude 50, longitude 5, with the output 8.1 (as a 32-bit float,
    \<open>4246733 / 2\<^sup>1\<^sup>9\<close>), the activity is \<open>- 78125 / 8192\<close>, about \<open>-9.54\<close>, the pressure
    \<open>1013 + 47.68\<close> is clamped to 1050, and a draw \<^verbatim>\<open>random() = 0.99\<close> gives
    \<open>1051.029 \<cdot> 0.9998824\<close>, about \<open>1050.905\<close>.
\<close>

theorem humidity_pressure_range_counterexample:
  "bme_humidity (BME688 (the_results (fst (predict strptime_ymd_hm (constant_model (1/2) (1/10))
       np_mean_float32 random_uniform (constant_stream (9/10)) ''20250615'' 50 5 None)))) = 100.4
   \<and> bme_humidity (BME688 (the_results (fst (predict strptime_ymd_hm (constant_model (1/2) (1/10))
       np_mean_float32 random_uniform (constant_stream 0) ''20250615'' 27 0 (Some ''14:00''))))) = 9.9
   \<and> bme_pressure (BME688 (the_results (fst (predict strptime_ymd_hm (constant_model (1/2) (1/10))
       np_mean_float32 random_uniform (constant_stream (1/2)) ''20250615'' 40 (-110) None)))) = 949.943
   \<and> bme_pressure (BME688 (the_results (fst (predict strptime_ymd_hm
       (constant_model (4246733 / 524288) (1/10))
       np_mean_float32 random_uniform (constant_stream (99/100)) ''20250615'' 50 5 None)))) =
       1313631748737 / 1250000000
   \<and> (1050 :: real) < 1313631748737 / 1250000000
   \<and> is_Success (fst (predict strptime_ymd_hm (constant_model (1/2) (1/10))
       np_mean_float32 random_uniform (constant_stream (9/10)) ''20250615'' 50 5 None))
   \<and> is_Success (fst (predict strptime_ymd_hm (constant_model (1/2) (1/10))
       np_mean_float32 random_uniform (constant_stream 0) ''20250615'' 27 0 (Some ''14:00'')))
   \<and> is_Success (fst (predict strptime_ymd_hm (constant_model (1/2) (1/10))
       np_mean_float32 random_uniform (constant_stream (1/2)) ''20250615'' 40 (-110) None))
   \<and> is_Success (fst (predict strptime_ymd_hm (constant_model (4246733 / 524288) (1/10))
       np_mean_float32 random_uniform (constant_stream (99/100)) ''20250615'' 50 5 None))"
proof -
  note half = activity_half exp_in_range_samples(1)
  note eight = activity_8_1 exp_in_range_samples(3)
  have h1: "bme_humidity (BME688 (the_results (fst (predict strptime_ymd_hm
       (constant_model (1/2) (1/10)) np_mean_float32 random_uniform (constant_stream (9/10))
       ''20250615'' 50 5 None)))) = 100.4"
    unfolding constant_call_humidity[OF parse_summer_midnight half] region_50_5
      forest_summer_night_humidity
    by (simp add: add_sensor_noise_def random_uniform_def constant_stream_def Let_def)
  have h2: "bme_humidity (BME688 (the_results (fst (predict strptime_ymd_hm
       (constant_model (1/2) (1/10)) np_mean_float32 random_uniform (constant_stream 0)
       ''20250615'' 27 0 (Some ''14:00''))))) = 9.9"
    unfolding constant_call_humidity[OF parse_summer_afternoon half] region_27_0
      desert_summer_afternoon_humidity
    by (simp add: add_sensor_noise_def random_uniform_def constant_stream_def Let_def)
  have p1: "bme_pressure (BME688 (the_results (fst (predict strptime_ymd_hm
       (constant_model (1/2) (1/10)) np_mean_float32 random_uniform (constant_stream (1/2))
       ''20250615'' 40 (-110) None)))) = 949.943"
    unfolding constant_call_pressure[OF parse_summer_midnight half] region_40_m110
      elevation_factor_mountain
    by (simp add: add_sensor_noise_def random_uniform_def constant_stream_def Let_def
        regional_base_values_def)
  have p2: "bme_pressure (BME688 (the_results (fst (predict strptime_ymd_hm
       (constant_model (4246733 / 524288) (1/10)) np_mean_float32 random_uniform
       (constant_stream (99/100)) ''20250615'' 50 5 None)))) = 1313631748737 / 1250000000"
    unfolding constant_call_pressure[OF parse_summer_midnight eight] region_50_5
      elevation_factor_forest
    by (simp add: add_sensor_noise_def random_uniform_def constant_stream_def Let_def
        regional_base_values_def)
  show ?thesis
    unfolding h1 h2 p1 p2
    by (simp add: constant_call_succeeds[OF parse_summer_midnight half]
      constant_call_succeeds[OF parse_summer_afternoon half]
      constant_call_succeeds[OF parse_summer_midnight eight])
qed

section \<open>The pattern field\<close>

lemma clip_range: "lo \<le> hi \<Longrightarrow> lo \<le> clip a lo hi \<and> clip a lo hi \<le> hi"
  by (simp add: clip_def)

lemma synthetic_field_elements:
  assumes "row \<in> set (synthetic_field lat lon dt)" and "v \<in> set row"
  shows "\<exists>a. v = clip a 0.1 1.0 * elevation_factor lat lon"
  using assms
  by (auto simp: synthetic_field_def Let_def split_beta elevation_factor_def split: if_splits)

lemma last_frame:
  "generate_synthetic_patch lat lon dt ! 2 = map (map (\<lambda>v. [v])) (synthetic_field lat lon dt)"
  by (simp add: generate_synthetic_patch_def Let_def)

lemma elevation_factor_range: "1/2 \<le> elevation_factor lat lon \<and> elevation_factor lat lon \<le> 101/100"
  using elevation_factor_cases[of lat lon] by auto

lemma length_linspace: "length (linspace a b n) = n"
  by (simp add: linspace_def)

lemma nth_linspace: "i < n \<Longrightarrow> linspace a b n ! i = a + real i * ((b - a) / real (n - 1))"
  by (simp add: linspace_def)

lemma length_synthetic_field: "length (synthetic_field lat lon dt) = 128"
  by (simp add: synthetic_field_def Let_def split_beta meshgrid_def length_linspace)

lemma length_synthetic_field_row:
  assumes "i < 128"
  shows "length (synthetic_field lat lon dt ! i) = 128"
  using assms
  by (simp add: synthetic_field_def Let_def split_beta meshgrid_def length_linspace)

lemma synthetic_field_rows:
  assumes "row \<in> set (synthetic_field lat lon dt)"
  shows "length row = 128"
proof -
  from assms obtain i where "i < length (synthetic_field lat lon dt)"
    "row = synthetic_field lat lon dt ! i"
    by (auto simp: in_set_conv_nth)
  then show ?thesis by (simp add: length_synthetic_field length_synthetic_field_row)
qed

lemma length_patch: "length (generate_synthetic_patch lat lon dt) = 3"
  by (simp add: generate_synthetic_patch_def Let_def)

lemma last_frame_nth:
  assumes "i < 128" "j < 128"
  shows "generate_synthetic_patch lat lon dt ! 2 ! i ! j = [synthetic_field lat lon dt ! i ! j]"
  using assms by (simp add: last_frame length_synthetic_field length_synthetic_field_row)

text \<open>
  C3, as amended. The claim is that every element of the final, unweighted frame lies in
  \<open>[0.1, 1.0]\<close>. The code clamps to \<open>[0.1, 1.0]\<close> and multiplies by the elevation factor
  afterwards, so what holds for every latitude, longitude and timestamp is: the tensor has
  three frames, the last one has 128 rows of 128 elements, and every element of that frame
  lies between \<open>0.1\<close> and \<open>1.0\<close> times the elevation factor, hence in
  \<open>[0.05, 1.01]\<close> (the factor is 0.5 for Mountain, 0.96 for Tundra, 1.01 for Ocean and 0.98
  otherwise).
\<close>

theorem pattern_field_range:
  "length (generate_synthetic_patch lat lon dt) = 3
   \<and> length (generate_synthetic_patch lat lon dt ! 2) = 128
   \<and> (\<forall>row \<in> set (generate_synthetic_patch lat lon dt ! 2). length row = 128
        \<and> (\<forall>cell \<in> set row. \<forall>v \<in> set cell.
              0.1 * elevation_factor lat lon \<le> v \<and> v \<le> 1.0 * elevation_factor lat lon
              \<and> 0.05 \<le> v \<and> v \<le> 1.01))"
proof (intro conjI ballI)
  show "length (generate_synthetic_patch lat lon dt) = 3" by (rule length_patch)
  show "length (generate_synthetic_patch lat lon dt ! 2) = 128"
    by (simp add: last_frame length_synthetic_field)
next
  fix row
  assume "row \<in> set (generate_synthetic_patch lat lon dt ! 2)"
  then show "length row = 128"
    unfolding last_frame using synthetic_field_rows by auto
next
  fix row cell v
  assume "row \<in> set (generate_synthetic_patch lat lon dt ! 2)" "cell \<in> set row" "v \<in> set cell"
  then obtain row' where "row' \<in> set (synthetic_field lat lon dt)" "v \<in> set row'"
    unfolding last_frame by auto
  from synthetic_field_elements[OF this] obtain a where
    v: "v = clip a 0.1 1.0 * elevation_factor lat lon" by blast
  have c: "0.1 \<le> clip a 0.1 1.0 \<and> clip a 0.1 1.0 \<le> 1.0" by (rule clip_range) simp
  let ?f = "elevation_factor lat lon"
  have f: "1/2 \<le> ?f" "?f \<le> 101/100" using elevation_factor_range[of lat lon] by simp_all
  have 1: "0.1 * ?f \<le> clip a 0.1 1.0 * ?f" using c f by (intro mult_right_mono) simp_all
  have 2: "clip a 0.1 1.0 * ?f \<le> 1.0 * ?f" using c f by (intro mult_right_mono) simp_all
  have "0.05 \<le> 0.1 * ?f" "1.0 * ?f \<le> 1.01" using f by simp_all
  with 1 2 show "0.1 * ?f \<le> v" "v \<le> 1.0 * ?f" "0.05 \<le> v" "v \<le> 1.01"
    unfolding v by linarith+
qed

text \<open>One element of the field over the ocean, evaluated.\<close>

lemma new_year_features:
  "datetime_to_features \<lparr>dt_year = 2025, dt_month = 1, dt_day = 1, dt_hour = 0, dt_minute = 0\<rparr> =
     \<lparr>year_progress = 0, seasonal_sin = 0, seasonal_cos = 1, diurnal_sin = 0, diurnal_cos = 1,
      season = ''winter'', time_of_day = ''night'', hour = 0, month = 1\<rparr>"
  by (simp add: datetime_to_features_def tm_yday_def Let_def)

lemma region_0_10: "determine_region_type 0 10 = OCEAN"
  by (simp add: determine_region_type_def)

lemma centre_distance: "sqrt (2 * (1 / 127)\<^sup>2) = sqrt 2 / 127"
  by (simp only: real_sqrt_mult real_sqrt_abs)

lemma exp_centre_bound: "124 / 127 \<le> exp (- (3 / 127) :: real)"
  using exp_ge_add_one_self[of "- (3 / 127) :: real"] by simp

lemma ocean_centre_value:
  "synthetic_field 0 10 \<lparr>dt_year = 2025, dt_month = 1, dt_day = 1, dt_hour = 0, dt_minute = 0\<rparr> ! 64 ! 64
     = 101 / 100"
proof -
  have x: "linspace (-1) 1 128 ! 64 = 1 / 127" by (simp add: nth_linspace)
  have e: "get_elevation 0 10 = -50" by (simp add: get_elevation_def region_0_10)
  show ?thesis
    unfolding synthetic_field_def Let_def region_0_10 new_year_features e meshgrid_def
    using exp_centre_bound
    by (simp add: length_linspace x centre_distance split_beta clip_def)
qed

text \<open>C3 as stated fails over the ocean, where the elevation is \<open>-50\<close> and the factor
  \<open>1.01\<close>: at latitude 0, longitude 10 on 1 January 2025, 00:00, the element in row 64,
  column 64 is clamped to \<open>1.0\<close> and leaves the generator as \<open>1.01\<close>.\<close>

theorem pattern_field_range_counterexample:
  "generate_synthetic_patch 0 10
     \<lparr>dt_year = 2025, dt_month = 1, dt_day = 1, dt_hour = 0, dt_minute = 0\<rparr> ! 2 ! 64 ! 64 ! 0
   = 1.01
   \<and> \<not> (generate_synthetic_patch 0 10
     \<lparr>dt_year = 2025, dt_month = 1, dt_day = 1, dt_hour = 0, dt_minute = 0\<rparr> ! 2 ! 64 ! 64 ! 0
   \<le> 1.0)"
  using ocean_centre_value by (simp add: last_frame_nth)

text \<open>The amended C3 at the same element.\<close>

theorem pattern_field_range_witness:
  "generate_synthetic_patch 0 10
     \<lparr>dt_year = 2025, dt_month = 1, dt_day = 1, dt_hour = 0, dt_minute = 0\<rparr> ! 2 ! 64
     \<in> set (generate_synthetic_patch 0 10
          \<lparr>dt_year = 2025, dt_month = 1, dt_day = 1, dt_hour = 0, dt_minute = 0\<rparr> ! 2)
   \<and> generate_synthetic_patch 0 10
     \<lparr>dt_year = 2025, dt_month = 1, dt_day = 1, dt_hour = 0, dt_minute = 0\<rparr> ! 2 ! 64 ! 64
     \<in> set (generate_synthetic_patch 0 10
          \<lparr>dt_year = 2025, dt_month = 1, dt_day = 1, dt_hour = 0, dt_minute = 0\<rparr> ! 2 ! 64)
   \<and> generate_synthetic_patch 0 10
     \<lparr>dt_year = 2025, dt_month = 1, dt_day = 1, dt_hour = 0, dt_minute = 0\<rparr> ! 2 ! 64 ! 64 ! 0
     \<in> set (generate_synthetic_patch 0 10
          \<lparr>dt_year = 2025, dt_month = 1, dt_day = 1, dt_hour = 0, dt_minute = 0\<rparr> ! 2 ! 64 ! 64)
   \<and> 0.05 \<le> generate_synthetic_patch 0 10
     \<lparr>dt_year = 2025, dt_month = 1, dt_day = 1, dt_hour = 0, dt_minute = 0\<rparr> ! 2 ! 64 ! 64 ! 0
   \<and> generate_synthetic_patch 0 10
     \<lparr>dt_year = 2025, dt_month = 1, dt_day = 1, dt_hour = 0, dt_minute = 0\<rparr> ! 2 ! 64 ! 64 ! 0
     \<le> 1.01"
proof -
  let ?dt = "\<lparr>dt_year = 2025, dt_month = 1, dt_day = 1, dt_hour = 0, dt_minute = 0\<rparr>"
  let ?frame = "generate_synthetic_patch 0 10 ?dt ! 2"
  have l1: "length ?frame = 128" by (simp add: last_frame length_synthetic_field)
  have l2: "length (?frame ! 64) = 128"
    by (simp add: last_frame length_synthetic_field length_synthetic_field_row)
  have l3: "length (?frame ! 64 ! 64) = 1" by (simp add: last_frame_nth)
  have m1: "?frame ! 64 \<in> set ?frame" using l1 by simp
  have m2: "?frame ! 64 ! 64 \<in> set (?frame ! 64)" using l2 by simp
  have m3: "?frame ! 64 ! 64 ! 0 \<in> set (?frame ! 64 ! 64)" using l3 by simp
  from pattern_field_range[of 0 10 ?dt] m1 m2 m3 show ?thesis by blast
qed

section \<open>The two temperature readings\<close>

lemma synth_temperatures_zero_noise:
  "bme_temperature (BME688 (fst (enhanced_values uniform_zero nm adj g))) =
     temperature adj + (2 * 15) / (1 + exp (- 5 * (nm - 0.5)))"
  "MCP9808_temperature (fst (enhanced_values uniform_zero nm adj g)) =
     temperature adj + (2 * 15) / (1 + exp (- 5 * (nm - 0.5)))"
  by (simp_all add: enhanced_values_def add_sensor_noise_def uniform_zero_def Let_def)

text \<open>
  C10. With the draw replaced by one that returns 0, every successful result reports the same
  temperature under BME688 and under MCP9808: both are the value that \<open>sigmoid_scale\<close>
  returns for the adjusted regional temperature and the activity reported in the metadata,
  with range 15 and steepness 5, minus twice the elevation factor.
\<close>

theorem temperatures_agree_without_noise:
  assumes "fst (predict strptime model np_mean uniform_zero g date_str lat lon time_str) = Success r"
  shows "bme_temperature (BME688 r) = MCP9808_temperature r
       \<and> (\<exists>dt s. strptime (date_str @ '' '' @ time_or_default time_str) ''%Y%m%d %H:%M'' = Inr dt
            \<and> sigmoid_scale
                  (temperature (apply_temporal_adjustments
                     (regional_base_values (determine_region_type lat lon)) dt
                     (determine_region_type lat lon)))
                  (normalized_activity (metadata r)) 15 5 = Inr s
            \<and> MCP9808_temperature r = s - elevation_factor lat lon * 2.0)"
proof -
  from predict_Success_fields[OF assms] obtain dt pred where
    p: "strptime (date_str @ '' '' @ time_or_default time_str) ''%Y%m%d %H:%M'' = Inr dt"
    and e: "exp_in_range (normalized_mean np_mean (map (map fst) pred))"
    and r: "bme_temperature (BME688 r) =
          bme_temperature (BME688 (fst (synthesized np_mean uniform_zero g lat lon dt pred)))
            - elevation_factor lat lon * 2"
       "MCP9808_temperature r =
          MCP9808_temperature (fst (synthesized np_mean uniform_zero g lat lon dt pred))
            - elevation_factor lat lon * 2"
       "normalized_activity (metadata r) = normalized_mean np_mean (map (map fst) pred)"
    by (auto simp: Let_def)
  let ?adj = "apply_temporal_adjustments
                     (regional_base_values (determine_region_type lat lon)) dt
                     (determine_region_type lat lon)"
  let ?nm = "normalized_mean np_mean (map (map fst) pred)"
  let ?s = "temperature ?adj + (2 * 15) / (1 + exp (- 5 * (?nm - 0.5)))"
  have 1: "bme_temperature (BME688 r) = MCP9808_temperature r"
    unfolding r synthesized_def synth_temperatures_zero_noise ..
  have 2: "sigmoid_scale (temperature ?adj) (normalized_activity (metadata r)) 15 5 = Inr ?s"
    unfolding r(3) by (rule sigmoid_scale_in_range[OF e])
  have 3: "MCP9808_temperature r = ?s - elevation_factor lat lon * 2.0"
    unfolding r synthesized_def synth_temperatures_zero_noise by simp
  show ?thesis
    by (intro conjI 1, rule exI[of _ dt], rule exI[of _ ?s]) (intro conjI p 2 3)
qed

text \<open>C10 at a call for 15 June 2025, 14:00, at latitude 40.7, longitude -74.0.\<close>

theorem temperatures_agree_without_noise_witness:
  "is_Success (fst (predict strptime_ymd_hm (constant_model (1/2) (1/10)) np_mean_float32
       uniform_zero (0::nat) ''20250615'' 40.7 (-74.0) (Some ''14:00'')))
   \<and> bme_temperature (BME688 (the_results (fst (predict strptime_ymd_hm
         (constant_model (1/2) (1/10)) np_mean_float32
         uniform_zero (0::nat) ''20250615'' 40.7 (-74.0) (Some ''14:00''))))) =
       MCP9808_temperature (the_results (fst (predict strptime_ymd_hm
         (constant_model (1/2) (1/10)) np_mean_float32
         uniform_zero (0::nat) ''20250615'' 40.7 (-74.0) (Some ''14:00''))))"
  using temperatures_agree_without_noise[of strptime_ymd_hm "constant_model (1/2) (1/10)"
      np_mean_float32 "0::nat" "''20250615''" "40.7" "-74.0" "Some ''14:00''"
      "the_results (fst (predict strptime_ymd_hm (constant_model (1/2) (1/10)) np_mean_float32
         uniform_zero (0::nat) ''20250615'' 40.7 (-74.0) (Some ''14:00'')))"]
    sample_success[of "1/10" uniform_zero "0::nat" "40.7" "-74.0"]
  by simp

section \<open>Determinism\<close>

lemma synth_state_independent:
  assumes "\<forall>a b g g'. fst (uniform a b g) = fst (uniform a b g')"
  shows "fst (enhanced_values uniform nm adj g1) =
         fst (enhanced_values uniform nm adj g2)"
proof -
  define n where "n a b = fst (uniform a b g1)" for a b
  have u: "fst (uniform a b g) = n a b" for a b g
    unfolding n_def using assms by blast
  have s: "fst (add_sensor_noise uniform v rs am g) = v + n (- max (\<bar>v\<bar> * rs) am) (max (\<bar>v\<bar> * rs) am)"
    for v rs am g
    by (simp add: add_sensor_noise_def Let_def split_beta u)
  show ?thesis
    by (simp add: enhanced_values_def Let_def split_beta s)
qed

text \<open>
  C5. When the noise is fixed, that is when the sample a draw returns does not depend on the
  state of the generator (as for the draw that always returns 0), and the model is a fixed
  function, the result of \<^verbatim>\<open>predict\<close> is a function of the date, the coordinates and the
  time alone: two calls with these inputs equal return equal results, whatever the states
  of the generator at the two calls.
\<close>

theorem predict_deterministic_with_fixed_noise:
  assumes "\<forall>a b g g'. fst (uniform a b g) = fst (uniform a b g')"
  shows "fst (predict strptime model np_mean uniform g1 date_str lat lon time_str) =
         fst (predict strptime model np_mean uniform g2 date_str lat lon time_str)"
proof (cases "strptime (date_str @ '' '' @ time_or_default time_str) ''%Y%m%d %H:%M''")
  case (Inl e)
  then show ?thesis by (cases e) (simp_all add: predict_def predict_body_def)
next
  case dt: (Inr dt)
  show ?thesis
  proof (cases "model [generate_synthetic_patch lat lon dt]")
    case (Inl e)
    with dt show ?thesis by (cases e) (simp_all add: predict_def predict_body_def Let_def)
  next
    case pred: (Inr pred)
    show ?thesis
    proof (cases "concat (map (map fst) pred) = []")
      case True
      with dt pred show ?thesis by (simp add: predict_def predict_body_def Let_def)
    next
      case ne: False
      show ?thesis
      proof (cases "exp_in_range (normalized_mean np_mean (map (map fst) pred))")
        case True
        show ?thesis
          unfolding predict_Success_eq[where strptime = strptime and model = model
              and np_mean = np_mean, OF dt pred ne True]
            synthesized_def synth_state_independent[OF assms, of _ _ g1 g2] ..
      next
        case False
        show ?thesis
          unfolding predict_overflow[where strptime = strptime and model = model
              and np_mean = np_mean, OF dt pred ne False] ..
      qed
    qed
  qed
qed

text \<open>C5 for the draw that returns 0, at two different generator states.\<close>

theorem predict_deterministic_with_fixed_noise_witness:
  "(\<forall>a b (g::nat) g'. fst (uniform_zero a b g) = fst (uniform_zero a b g'))
   \<and> fst (predict strptime_ymd_hm (constant_model (1/2) (1/10)) np_mean_float32 uniform_zero (0::nat)
          ''20250615'' 40.7 (-74.0) (Some ''14:00'')) =
     fst (predict strptime_ymd_hm (constant_model (1/2) (1/10)) np_mean_float32 uniform_zero (1::nat)
          ''20250615'' 40.7 (-74.0) (Some ''14:00''))
   \<and> is_Success (fst (predict strptime_ymd_hm (constant_model (1/2) (1/10)) np_mean_float32
          uniform_zero (0::nat) ''20250615'' 40.7 (-74.0) (Some ''14:00'')))"
proof -
  have h: "\<forall>a b (g::nat) g'. fst (uniform_zero a b g) = fst (uniform_zero a b g')"
    by (simp add: uniform_zero_def)
  from predict_deterministic_with_fixed_noise[OF h, of strptime_ymd_hm
      "constant_model (1/2) (1/10)" np_mean_float32 0 "''20250615''" "40.7" "-74.0"
      "Some ''14:00''" 1]
    h sample_success[of "1/10" uniform_zero "0::nat" "40.7" "-74.0"]
  show ?thesis by simp
qed

section \<open>Errors\<close>

lemma predict_body_strptime_raises:
  "strptime (date_str @ '' '' @ time_or_default time_str) ''%Y%m%d %H:%M'' = Inl e \<Longrightarrow>
   predict_body strptime model np_mean uniform g date_str lat lon time_str = (Inl e, g)"
  by (simp add: predict_body_def)

lemma predict_body_model_raises:
  "strptime (date_str @ '' '' @ time_or_default time_str) ''%Y%m%d %H:%M'' = Inr dt \<Longrightarrow>
   model [generate_synthetic_patch lat lon dt] = Inl e \<Longrightarrow>
   predict_body strptime model np_mean uniform g date_str lat lon time_str = (Inl e, g)"
  by (simp add: predict_body_def Let_def)

lemma predict_on_raise:
  "predict_body strptime model np_mean uniform g date_str lat lon time_str = (Inl e, g') \<Longrightarrow>
   predict strptime model np_mean uniform g date_str lat lon time_str =
     (Failure \<lparr>error = exn_text e, message = error_message e\<rparr>, g')"
  by (cases e) (simp_all add: predict_def exn_text_def error_message_def)

text \<open>The steps of the \<^verbatim>\<open>try\<close> block that can raise.\<close>

lemma predict_body_raises_iff:
  "fst (predict_body strptime model np_mean uniform g date_str lat lon time_str) = Inl e \<longleftrightarrow>
     strptime (date_str @ '' '' @ time_or_default time_str) ''%Y%m%d %H:%M'' = Inl e
     \<or> (\<exists>dt. strptime (date_str @ '' '' @ time_or_default time_str) ''%Y%m%d %H:%M'' = Inr dt
           \<and> (model [generate_synthetic_patch lat lon dt] = Inl e
              \<or> (\<exists>pred. model [generate_synthetic_patch lat lon dt] = Inr pred
                    \<and> (if concat (map (map fst) pred) = []
                        then e = ValueError
                          ''zero-size array to reduction operation maximum which has no identity''
                        else \<not> exp_in_range (normalized_mean np_mean (map (map fst) pred))
                             \<and> e = Exception ''math range error''))))"
proof (cases "strptime (date_str @ '' '' @ time_or_default time_str) ''%Y%m%d %H:%M''")
  case (Inl e')
  then show ?thesis by (auto simp: predict_body_def)
next
  case dt: (Inr dt)
  show ?thesis
  proof (cases "model [generate_synthetic_patch lat lon dt]")
    case (Inl e')
    with dt show ?thesis by (auto simp: predict_body_def Let_def)
  next
    case pred: (Inr pred)
    show ?thesis
    proof (cases "concat (map (map fst) pred) = []")
      case True
      with dt pred show ?thesis by (auto simp: predict_body_def Let_def)
    next
      case ne: False
      show ?thesis
      proof (cases "exp_in_range (normalized_mean np_mean (map (map fst) pred))")
        case True
        with dt pred ne show ?thesis
          by (auto simp: predict_body_def Let_def calculate_enhanced_values_in_range
              apply_physics_constraints_Inr)
      next
        case False
        let ?c = "calculate_enhanced_values uniform (normalized_mean np_mean (map (map fst) pred))
           (apply_temporal_adjustments (regional_base_values (determine_region_type lat lon)) dt
              (determine_region_type lat lon)) g"
        have "?c = (fst ?c, snd ?c)" by simp
        then have "?c = (Inl (Exception ''math range error''), snd ?c)"
          unfolding calculate_enhanced_values_overflow[OF False] .
        then obtain g' where "?c = (Inl (Exception ''math range error''), g')" ..
        with dt pred ne False show ?thesis
          by (auto simp: predict_body_def Let_def)
      qed
    qed
  qed
qed

lemma predict_body_generator:
  assumes "predict_body strptime model np_mean uniform g date_str lat lon time_str = (Inl e, g')"
    and "e \<noteq> Exception ''math range error''"
  shows "g' = g"
proof -
  from assms(1) have "fst (predict_body strptime model np_mean uniform g date_str lat lon time_str)
      = Inl e" by simp
  then consider
      "strptime (date_str @ '' '' @ time_or_default time_str) ''%Y%m%d %H:%M'' = Inl e"
    | dt where "strptime (date_str @ '' '' @ time_or_default time_str) ''%Y%m%d %H:%M'' = Inr dt"
        "model [generate_synthetic_patch lat lon dt] = Inl e"
    | dt pred where "strptime (date_str @ '' '' @ time_or_default time_str) ''%Y%m%d %H:%M'' = Inr dt"
        "model [generate_synthetic_patch lat lon dt] = Inr pred" "concat (map (map fst) pred) = []"
    unfolding predict_body_raises_iff using assms(2) by (auto split: if_splits)
  then show ?thesis
  proof cases
    case 1
    from predict_body_strptime_raises[where strptime = strptime and model = model
        and np_mean = np_mean and uniform = uniform and g = g, OF 1] assms(1)
    show ?thesis by simp
  next
    case 2
    from predict_body_model_raises[where strptime = strptime and model = model
        and np_mean = np_mean and uniform = uniform and g = g, OF 2] assms(1)
    show ?thesis by simp
  next
    case 3
    with assms(1) show ?thesis by (simp add: predict_body_def Let_def)
  qed
qed

text \<open>
  C9. \<^verbatim>\<open>predict\<close> never raises: when the date and time do not parse (\<open>strptime\<close> raises
  \<open>e\<close>), and more generally when any step of the \<^verbatim>\<open>try\<close> block raises \<open>e\<close>, it returns
  the dictionary with the keys \<^verbatim>\<open>error\<close>, holding the text of \<open>e\<close>, and \<^verbatim>\<open>message\<close>; for
  the \<^verbatim>\<open>ValueError\<close> of a malformed date or time the message is
  \<^verbatim>\<open>Invalid date/time format or input values\<close>. The generator is left as it was, unless
  the error is the overflow of \<^verbatim>\<open>math.exp\<close>, which can come after draws.
\<close>

theorem predict_returns_tagged_error:
  "(strptime (date_str @ '' '' @ time_or_default time_str) ''%Y%m%d %H:%M'' = Inl e \<longrightarrow>
      predict strptime model np_mean uniform g date_str lat lon time_str =
        (Failure \<lparr>error = exn_text e, message = error_message e\<rparr>, g))
   \<and> (strptime (date_str @ '' '' @ time_or_default time_str) ''%Y%m%d %H:%M'' = Inl (ValueError txt) \<longrightarrow>
      predict strptime model np_mean uniform g date_str lat lon time_str =
        (Failure \<lparr>error = txt, message = ''Invalid date/time format or input values''\<rparr>, g))
   \<and> (predict_body strptime model np_mean uniform g date_str lat lon time_str = (Inl e, g') \<longrightarrow>
      predict strptime model np_mean uniform g date_str lat lon time_str =
        (Failure \<lparr>error = exn_text e, message = error_message e\<rparr>, g')
      \<and> (e \<noteq> Exception ''math range error'' \<longrightarrow> g' = g))
   \<and> (strptime (date_str @ '' '' @ time_or_default time_str) ''%Y%m%d %H:%M'' = Inr dt
        \<and> model [generate_synthetic_patch lat lon dt] = Inl e \<longrightarrow>
      predict strptime model np_mean uniform g date_str lat lon time_str =
        (Failure \<lparr>error = exn_text e, message = error_message e\<rparr>, g))"
  using predict_on_raise[OF predict_body_strptime_raises, of strptime date_str time_str _ model np_mean uniform g lat lon]
    predict_on_raise[of strptime model np_mean uniform g date_str lat lon time_str e g']
    predict_body_generator[of strptime model np_mean uniform g date_str lat lon time_str e g']
    predict_on_raise[OF predict_body_model_raises, of strptime date_str time_str dt model lat lon e np_mean uniform g]
  by (auto simp: exn_text_def error_message_def)

lemma predict_body_sigmoid_overflow:
  assumes "strptime (date_str @ '' '' @ time_or_default time_str) ''%Y%m%d %H:%M'' = Inr dt"
    and "model [generate_synthetic_patch lat lon dt] = Inr pred"
    and "concat (map (map fst) pred) \<noteq> []"
    and "\<not> exp (- 5 * (normalized_mean np_mean (map (map fst) pred) - 0.5)) < 2 ^ 1024"
  shows "predict_body strptime model np_mean uniform g date_str lat lon time_str =
           (Inl (Exception ''math range error''), g)"
  using assms(1-3)
  by (simp add: predict_body_def Let_def calculate_enhanced_values_sigmoid_overflow[OF assms(4)])

lemma overflow_call:
  "predict_body strptime_ymd_hm (constant_model (8192819 / 8192) (1/10)) np_mean_float32
     random_uniform (constant_stream (1/4)) ''20250615'' 40.7 (-74.0) (Some ''14:00'') =
   (Inl (Exception ''math range error''), constant_stream (1/4))"
proof -
  let ?dt = "\<lparr>dt_year = 2025, dt_month = 6, dt_day = 15, dt_hour = 14, dt_minute = 0\<rparr>"
  have m: "constant_model (8192819 / 8192) (1/10) [generate_synthetic_patch 40.7 (-74.0) ?dt]
           = Inr (replicate 128 (replicate 128 (8192819 / 8192, 1/10)))"
    by (simp add: constant_model_def)
  have a: "normalized_mean np_mean_float32
             (map (map fst) (replicate 128 (replicate 128 (8192819 / 8192 :: real, 1/10 :: real)))) =
           - (78125 / 64)"
    using activity_1000_1 by simp
  have e: "\<not> exp (- 5 * (normalized_mean np_mean_float32
             (map (map fst) (replicate 128 (replicate 128 (8192819 / 8192 :: real, 1/10 :: real))))
             - 0.5)) < 2 ^ 1024"
    unfolding a by (rule exp_above_overflow) simp
  show ?thesis
    by (rule predict_body_sigmoid_overflow[where strptime = strptime_ymd_hm
        and model = "constant_model (8192819 / 8192) (1/10)" and np_mean = np_mean_float32,
        OF parse_summer_afternoon m constant_field_nonempty e])
qed

text \<open>C9 at the date string \<^verbatim>\<open>2025-06-15\<close>, which is not of the form
  \<^verbatim>\<open>YYYYMMDD\<close>; at a well-formed call whose model raises; and at a well-formed call
  whose model returns 1000.1 (as a 32-bit float, \<open>8192819 / 2\<^sup>1\<^sup>3\<close>) at each pixel, where
  the activity is \<open>- 78125 / 64\<close>, about \<open>-1220.7\<close>, and \<^verbatim>\<open>math.exp(6106.0...)\<close>
  overflows in the first \<open>sigmoid_scale\<close>.\<close>

theorem predict_returns_tagged_error_witness:
  "strptime_ymd_hm (''2025-06-15'' @ '' '' @ time_or_default (Some ''14:00'')) ''%Y%m%d %H:%M'' =
     Inl (ValueError (''time data '' @ [CHR 0x27] @ ''2025-06-15 14:00'' @ [CHR 0x27] @
            '' does not match format '' @ [CHR 0x27] @ ''%Y%m%d %H:%M'' @ [CHR 0x27]))
   \<and> predict strptime_ymd_hm (constant_model (1/2) (1/10)) np_mean_float32 random_uniform
        (constant_stream (1/4)) ''2025-06-15'' 40.7 (-74.0) (Some ''14:00'') =
      (Failure \<lparr>error = ''time data '' @ [CHR 0x27] @ ''2025-06-15 14:00'' @ [CHR 0x27] @
            '' does not match format '' @ [CHR 0x27] @ ''%Y%m%d %H:%M'' @ [CHR 0x27],
                message = ''Invalid date/time format or input values''\<rparr>, constant_stream (1/4))
   \<and> strptime_ymd_hm (''20250615'' @ '' '' @ time_or_default (Some ''14:00'')) ''%Y%m%d %H:%M'' =
     Inr \<lparr>dt_year = 2025, dt_month = 6, dt_day = 15, dt_hour = 14, dt_minute = 0\<rparr>
   \<and> failing_model ''model unavailable'' [generate_synthetic_patch 40.7 (-74.0)
        \<lparr>dt_year = 2025, dt_month = 6, dt_day = 15, dt_hour = 14, dt_minute = 0\<rparr>] =
     Inl (Exception ''model unavailable'')
   \<and> predict strptime_ymd_hm (failing_model ''model unavailable'') np_mean_float32 random_uniform
        (constant_stream (1/4)) ''20250615'' 40.7 (-74.0) (Some ''14:00'') =
      (Failure \<lparr>error = ''model unavailable'', message = ''Prediction failed''\<rparr>,
       constant_stream (1/4))
   \<and> predict_body strptime_ymd_hm (constant_model (8192819 / 8192) (1/10)) np_mean_float32
        random_uniform (constant_stream (1/4)) ''20250615'' 40.7 (-74.0) (Some ''14:00'') =
      (Inl (Exception ''math range error''), constant_stream (1/4))
   \<and> predict strptime_ymd_hm (constant_model (8192819 / 8192) (1/10)) np_mean_float32
        random_uniform (constant_stream (1/4)) ''20250615'' 40.7 (-74.0) (Some ''14:00'') =
      (Failure \<lparr>error = ''math range error'', message = ''Prediction failed''\<rparr>,
       constant_stream (1/4))"
proof -
  let ?txt = "''time data '' @ [CHR 0x27] @ ''2025-06-15 14:00'' @ [CHR 0x27] @
            '' does not match format '' @ [CHR 0x27] @ ''%Y%m%d %H:%M'' @ [CHR 0x27]"
  let ?dt = "\<lparr>dt_year = 2025, dt_month = 6, dt_day = 15, dt_hour = 14, dt_minute = 0\<rparr>"
  have m: "failing_model ''model unavailable'' [generate_synthetic_patch 40.7 (-74.0) ?dt] =
     Inl (Exception ''model unavailable'')"
    by (simp add: failing_model_def)
  have 1: "predict strptime_ymd_hm (constant_model (1/2) (1/10)) np_mean_float32 random_uniform
        (constant_stream (1/4)) ''2025-06-15'' 40.7 (-74.0) (Some ''14:00'') =
      (Failure \<lparr>error = ?txt,
                message = ''Invalid date/time format or input values''\<rparr>, constant_stream (1/4))"
    using predict_returns_tagged_error[of strptime_ymd_hm "''2025-06-15''" "Some ''14:00''"
        "ValueError ?txt" "constant_model (1/2) (1/10)" np_mean_float32 random_uniform
        "constant_stream (1/4)" "40.7" "-74.0" "?txt"]
      parse_dashed_date
    by (simp add: exn_text_def error_message_def)
  have 2: "predict strptime_ymd_hm (failing_model ''model unavailable'') np_mean_float32
        random_uniform (constant_stream (1/4)) ''20250615'' 40.7 (-74.0) (Some ''14:00'') =
      (Failure \<lparr>error = ''model unavailable'', message = ''Prediction failed''\<rparr>,
       constant_stream (1/4))"
    using predict_returns_tagged_error[of strptime_ymd_hm "''20250615''" "Some ''14:00''"
        "Exception ''model unavailable''" "failing_model ''model unavailable''" np_mean_float32
        random_uniform "constant_stream (1/4)" "40.7" "-74.0" _ _ "?dt"]
      parse_summer_afternoon m
    by (simp add: exn_text_def error_message_def)
  have 3: "predict strptime_ymd_hm (constant_model (8192819 / 8192) (1/10)) np_mean_float32
        random_uniform (constant_stream (1/4)) ''20250615'' 40.7 (-74.0) (Some ''14:00'') =
      (Failure \<lparr>error = ''math range error'', message = ''Prediction failed''\<rparr>,
       constant_stream (1/4))"
    using predict_returns_tagged_error[of strptime_ymd_hm "''20250615''" "Some ''14:00''"
        "Exception ''math range error''" "constant_model (8192819 / 8192) (1/10)" np_mean_float32
        random_uniform "constant_stream (1/4)" "40.7" "-74.0" _ "constant_stream (1/4)"]
      overflow_call
    by (simp add: exn_text_def error_message_def)
  from 1 2 3 m parse_dashed_date parse_summer_afternoon overflow_call show ?thesis by simp
qed

end
